theory Spec2Isabelle
  imports Complex_Main "HOL-Library.Word"
begin

unbundle bit_operations_syntax

section \<open>Bytes, buffers and the registries the codecs read\<close>

type_synonym u8 = "8 word"
type_synonym u16 = "16 word"
type_synonym u32 = "32 word"

text \<open>
  An \<open>sds\<close> buffer is a byte sequence with a known length. The parsers receive a
  pointer that may be null: \<open>None\<close> is the null pointer.
\<close>

type_synonym sds = "u8 list"

definition sdsempty :: sds where
  "sdsempty = []"

definition sdsnewlen :: "nat \<Rightarrow> sds" where
  \<comment> \<open>\<open>sdsnewlen (NULL, n)\<close>: a buffer of \<open>n\<close> zero bytes\<close>
  "sdsnewlen n = replicate n 0"

definition sdslen :: "sds \<Rightarrow> nat" where
  "sdslen s = length s"

definition sdscatsds :: "sds \<Rightarrow> sds \<Rightarrow> sds" where
  "sdscatsds s t = s @ t"

definition sdsgrowzero :: "sds \<Rightarrow> nat \<Rightarrow> sds" where
  \<comment> \<open>grows the buffer to \<open>n\<close> bytes, the new ones zero; a buffer already that long is kept\<close>
  "sdsgrowzero s n = (if n \<le> length s then s else s @ replicate (n - length s) 0)"

definition sds_get :: "sds \<Rightarrow> nat \<Rightarrow> u8" where
  \<comment> \<open>\<open>data [i]\<close> for reading. An sds buffer of length \<open>n\<close> is followed by a zero
      terminator, so index \<open>n\<close> reads \<open>0\<close>; no function below reads beyond it.\<close>
  "sds_get s i = (if i < length s then s ! i else 0)"

text \<open>
  Modelled from the spec: \<open>DS_Append\<close> of \<open>DS_Utils.h\<close>, which is not among the sources
  (``grow-append a byte to a dynamically sized buffer'').
\<close>

definition DS_Append :: "sds \<Rightarrow> u8 \<Rightarrow> sds" where
  "DS_Append buf b = buf @ [b]"

definition for_loop :: "nat \<Rightarrow> (nat \<Rightarrow> 'a \<Rightarrow> 'a) \<Rightarrow> 'a \<Rightarrow> 'a" where
  \<comment> \<open>\<open>for (i = 0; i < n; ++i) body\<close>, the body a function of \<open>i\<close> on the variables it updates\<close>
  "for_loop n body s = fold body [0..<n] s"

datatype DS_ControlMode = DS_CONTROL_TEST | DS_CONTROL_AUTONOMOUS | DS_CONTROL_TELEOPERATED

datatype DS_Alliance = DS_ALLIANCE_RED | DS_ALLIANCE_BLUE

datatype DS_Position = DS_POSITION_1 | DS_POSITION_2 | DS_POSITION_3

text \<open>
  Modelled from the spec: the configuration registry of \<open>DS_Config.h\<close>, which is not among
  the sources. It is a snapshot of independent fields, each read by its \<open>CFG_Get...\<close>
  accessor and written by its \<open>CFG_Set...\<close> mutator; a mutator given a C truth value
  stores whether it is nonzero. The team number is a C \<open>int\<close> (32 bits), the telemetry
  fields hold the byte that was received.
\<close>

record DS_Config =
  team_number :: u32
  control_mode :: DS_ControlMode
  alliance :: DS_Alliance
  position :: DS_Position
  robot_enabled :: bool
  emergency_stopped :: bool
  fms_communications :: bool
  radio_communications :: bool
  robot_communications :: bool
  robot_code :: bool
  robot_voltage :: real
  robot_cpu_usage :: u8
  robot_ram_usage :: u8
  robot_disk_usage :: u8
  can_utilization :: u8

text \<open>
  What the codecs call and the sources do not define is a parameter: the byte
  quantisation \<open>DS_GetFByte\<close> and the checksum \<open>DS_CRC32\<close> of \<open>DS_Utils.h\<close>, the size of a
  pointer (\<open>sizeof (data)\<close>), the joystick registry of \<open>DS_Joysticks.h\<close> and the
  broken-down local time returned by \<open>localtime\<close>.
\<close>

record DS_Env =
  DS_GetFByte :: "real \<Rightarrow> real \<Rightarrow> u8"
  DS_CRC32 :: "u32 \<Rightarrow> sds \<Rightarrow> nat \<Rightarrow> u32"
  sizeof_pointer :: nat
  DS_GetJoystickCount :: nat
  DS_GetJoystickNumAxes :: "nat \<Rightarrow> nat"
  DS_GetJoystickNumButtons :: "nat \<Rightarrow> nat"
  DS_GetJoystickNumHats :: "nat \<Rightarrow> nat"
  DS_GetJoystickAxis :: "nat \<Rightarrow> nat \<Rightarrow> real"
  DS_GetJoystickButton :: "nat \<Rightarrow> nat \<Rightarrow> bool"
  DS_GetJoystickHat :: "nat \<Rightarrow> nat \<Rightarrow> u32"
  tm_sec :: u32
  tm_min :: u32
  tm_hour :: u32
  tm_yday :: u32
  tm_mon :: u32
  tm_year :: u32
  tm_zone :: sds

section \<open>The 2014 codec (\<open>frc_2014.c\<close>)\<close>

subsection \<open>Protocol bytes\<close>

abbreviation (input) cEnabled_2014 :: u8 where "cEnabled_2014 \<equiv> 0x20"
abbreviation (input) cTestMode :: u8 where "cTestMode \<equiv> 0x02"
abbreviation (input) cAutonomous_2014 :: u8 where "cAutonomous_2014 \<equiv> 0x10"
abbreviation (input) cTeleoperated_2014 :: u8 where "cTeleoperated_2014 \<equiv> 0x00"
abbreviation (input) cFMS_Attached_2014 :: u8 where "cFMS_Attached_2014 \<equiv> 0x08"
abbreviation (input) cResyncComms :: u8 where "cResyncComms \<equiv> 0x04"
abbreviation (input) cRebootRobot :: u8 where "cRebootRobot \<equiv> 0x80"
abbreviation (input) cEmergencyStopOn :: u8 where "cEmergencyStopOn \<equiv> 0x00"
abbreviation (input) cEmergencyStopOff :: u8 where "cEmergencyStopOff \<equiv> 0x40"
abbreviation (input) cPosition1 :: u8 where "cPosition1 \<equiv> 0x31"
abbreviation (input) cPosition2 :: u8 where "cPosition2 \<equiv> 0x32"
abbreviation (input) cPosition3 :: u8 where "cPosition3 \<equiv> 0x33"
abbreviation (input) cAllianceRed :: u8 where "cAllianceRed \<equiv> 0x52"
abbreviation (input) cAllianceBlue :: u8 where "cAllianceBlue \<equiv> 0x42"
abbreviation (input) cFMSAutonomous :: u8 where "cFMSAutonomous \<equiv> 0x53"
abbreviation (input) cFMSTeleoperated :: u8 where "cFMSTeleoperated \<equiv> 0x43"

text \<open>The file's static variables that are never assigned.\<close>

abbreviation (input) crc32 :: u32 where "crc32 \<equiv> 0"
abbreviation (input) max_axes :: nat where "max_axes \<equiv> 6"
abbreviation (input) max_buttons :: nat where "max_buttons \<equiv> 10"
abbreviation (input) max_joysticks :: nat where "max_joysticks \<equiv> 4"

text \<open>
  The static variables that are assigned: the packet counter (\<open>unsigned int\<close>) and the
  control code flags, which only ever hold 0 or 1 and are tested for being nonzero.
\<close>

record state_2014 =
  sent_robot_packets_2014 :: u32
  resync :: bool
  reboot_2014 :: bool
  restart_code_2014 :: bool

subsection \<open>Codes sent to the robot\<close>

definition get_alliance_2014 :: "u8 \<Rightarrow> DS_Alliance" where
  "get_alliance_2014 byte = (if byte = cAllianceRed then DS_ALLIANCE_RED else DS_ALLIANCE_BLUE)"

definition get_position_2014 :: "u8 \<Rightarrow> DS_Position" where
  "get_position_2014 byte =
     (if byte = cPosition1 then DS_POSITION_1
      else if byte = cPosition2 then DS_POSITION_2
      else if byte = cPosition3 then DS_POSITION_3
      else DS_POSITION_1)"

definition get_control_code_2014 :: "DS_Config \<Rightarrow> state_2014 \<Rightarrow> u8" where
  \<comment> \<open>the \<open>default\<close> branch of the switch has no value of \<open>DS_ControlMode\<close> left to take it;
      \<open>enabled + mode\<close> is at most \<open>0x30\<close>, so the sum is the same in 8 bits as in \<open>int\<close>\<close>
  "get_control_code_2014 cfg st =
     (let code = cEmergencyStopOff;
          enabled = (if robot_enabled cfg then cEnabled_2014 else 0x00);
          code = (case control_mode cfg of
                    DS_CONTROL_TEST \<Rightarrow> code OR (enabled + cTestMode)
                  | DS_CONTROL_AUTONOMOUS \<Rightarrow> code OR (enabled + cAutonomous_2014)
                  | DS_CONTROL_TELEOPERATED \<Rightarrow> code OR (enabled + cTeleoperated_2014));
          code = (if resync st then code OR cResyncComms else code);
          code = (if fms_communications cfg then code OR cFMS_Attached_2014 else code);
          code = (if emergency_stopped cfg then cEmergencyStopOn else code);
          code = (if reboot_2014 st then cRebootRobot else code)
      in code)"

definition get_alliance_code :: "DS_Config \<Rightarrow> u8" where
  "get_alliance_code cfg = (if alliance cfg = DS_ALLIANCE_RED then cAllianceRed else cAllianceBlue)"

definition get_position_code :: "DS_Config \<Rightarrow> u8" where
  "get_position_code cfg =
     (case position cfg of
        DS_POSITION_1 \<Rightarrow> cPosition1
      | DS_POSITION_2 \<Rightarrow> cPosition2
      | DS_POSITION_3 \<Rightarrow> cPosition3)"

definition get_digital_inputs :: u8 where
  "get_digital_inputs = 0x00"

definition get_joystick_data_2014 :: "DS_Env \<Rightarrow> sds" where
  \<comment> \<open>\<open>button_flags\<close> is a \<open>uint16_t\<close>; the sum with \<open>pow (2, j)\<close> stays below \<open>2 ^ 10\<close>\<close>
  "get_joystick_data_2014 env =
     for_loop max_joysticks (\<lambda>i buf.
       let buf = for_loop max_axes (\<lambda>j buf.
                   DS_Append buf (DS_GetFByte env (DS_GetJoystickAxis env i j) 1)) buf;
           button_flags = for_loop max_buttons (\<lambda>j (flags :: u16).
                   flags + (if DS_GetJoystickButton env i j then 2 ^ j else 0)) 0;
           buf = DS_Append buf (ucast (drop_bit 8 (button_flags AND 0xff00)));
           buf = DS_Append buf (ucast (button_flags AND 0xff))
       in buf) sdsempty"

subsection \<open>Packets sent\<close>

definition create_fms_packet_2014 :: sds where
  "create_fms_packet_2014 = sdsempty"

definition create_radio_packet_2014 :: sds where
  "create_radio_packet_2014 = sdsempty"

definition create_robot_packet_2014 :: "DS_Env \<Rightarrow> DS_Config \<Rightarrow> state_2014 \<Rightarrow> sds \<times> state_2014" where
  \<comment> \<open>\<open>checksum\<close> is declared \<open>uint8_t\<close> and the CRC is taken over \<open>sizeof (data)\<close> bytes,
      the size of the pointer\<close>
  "create_robot_packet_2014 env cfg st =
     (let data = sdsnewlen 8;
          data = data [0 := ucast (drop_bit 8 (sent_robot_packets_2014 st AND 0xff00))];
          data = data [1 := ucast (sent_robot_packets_2014 st AND 0xff)];
          data = data [2 := get_control_code_2014 cfg st];
          data = data [3 := get_digital_inputs];
          data = data [4 := ucast (drop_bit 8 (team_number cfg AND 0xff00))];
          data = data [5 := ucast (team_number cfg AND 0xff)];
          data = data [6 := get_alliance_code cfg];
          data = data [7 := get_position_code cfg];
          joystick_data = get_joystick_data_2014 env;
          data = sdscatsds data joystick_data;
          data = sdsgrowzero data 1024;
          data = data [72 := 0x30];
          data = data [73 := 0x34];
          data = data [74 := 0x30];
          data = data [75 := 0x31];
          data = data [76 := 0x31];
          data = data [77 := 0x36];
          data = data [78 := 0x30];
          data = data [79 := 0x30];
          checksum = (ucast (DS_CRC32 env crc32 data (sizeof_pointer env)) :: u8);
          data = data [1020 := ucast (drop_bit 24 ((ucast checksum :: u32) AND 0xff000000))];
          data = data [1021 := ucast (drop_bit 16 ((ucast checksum :: u32) AND 0xff0000))];
          data = data [1022 := ucast (drop_bit 8 ((ucast checksum :: u32) AND 0xff00))];
          data = data [1023 := ucast ((ucast checksum :: u32) AND 0xff)]
      in (data, st \<lparr>sent_robot_packets_2014 := sent_robot_packets_2014 st + 1\<rparr>))"

subsection \<open>Packets received\<close>

text \<open>
  Modelled from the spec: the mutators of the configuration registry, which store the
  value they are given in their field.
\<close>

definition CFG_SetControlMode :: "DS_ControlMode \<Rightarrow> DS_Config \<Rightarrow> DS_Config" where
  "CFG_SetControlMode m cfg = cfg \<lparr>control_mode := m\<rparr>"

definition CFG_SetRobotEnabled :: "bool \<Rightarrow> DS_Config \<Rightarrow> DS_Config" where
  "CFG_SetRobotEnabled b cfg = cfg \<lparr>robot_enabled := b\<rparr>"

definition CFG_SetAlliance :: "DS_Alliance \<Rightarrow> DS_Config \<Rightarrow> DS_Config" where
  "CFG_SetAlliance a cfg = cfg \<lparr>alliance := a\<rparr>"

definition CFG_SetPosition :: "DS_Position \<Rightarrow> DS_Config \<Rightarrow> DS_Config" where
  "CFG_SetPosition p cfg = cfg \<lparr>position := p\<rparr>"

definition CFG_SetRobotVoltage :: "real \<Rightarrow> DS_Config \<Rightarrow> DS_Config" where
  "CFG_SetRobotVoltage v cfg = cfg \<lparr>robot_voltage := v\<rparr>"

definition CFG_SetEmergencyStopped :: "bool \<Rightarrow> DS_Config \<Rightarrow> DS_Config" where
  "CFG_SetEmergencyStopped b cfg = cfg \<lparr>emergency_stopped := b\<rparr>"

definition CFG_SetRobotCode :: "bool \<Rightarrow> DS_Config \<Rightarrow> DS_Config" where
  "CFG_SetRobotCode b cfg = cfg \<lparr>robot_code := b\<rparr>"

definition CFG_SetCANUtilization :: "u8 \<Rightarrow> DS_Config \<Rightarrow> DS_Config" where
  "CFG_SetCANUtilization x cfg = cfg \<lparr>can_utilization := x\<rparr>"

definition CFG_SetRobotCPUUsage :: "u8 \<Rightarrow> DS_Config \<Rightarrow> DS_Config" where
  "CFG_SetRobotCPUUsage x cfg = cfg \<lparr>robot_cpu_usage := x\<rparr>"

definition CFG_SetRobotRAMUsage :: "u8 \<Rightarrow> DS_Config \<Rightarrow> DS_Config" where
  "CFG_SetRobotRAMUsage x cfg = cfg \<lparr>robot_ram_usage := x\<rparr>"

definition CFG_SetRobotDiskUsage :: "u8 \<Rightarrow> DS_Config \<Rightarrow> DS_Config" where
  "CFG_SetRobotDiskUsage x cfg = cfg \<lparr>robot_disk_usage := x\<rparr>"

text \<open>
  A parser returns what the C function returns (0: not consumed, 1: consumed) and the
  registry after its writes. The doubles of the source are real numbers here: the
  conversions of a byte to \<open>double\<close> and the sum are exact in both, the quotient by
  \<open>0xff\<close> is rounded to the nearest double in C.
\<close>

definition read_fms_packet_2014 :: "DS_Config \<Rightarrow> sds option \<Rightarrow> int \<times> DS_Config" where
  "read_fms_packet_2014 cfg data =
     (case data of
        None \<Rightarrow> (0, cfg)
      | Some d \<Rightarrow>
          if sdslen d < 5 then (0, cfg)
          else
            let robotmod = sds_get d 2;
                alliance = sds_get d 3;
                position = sds_get d 4;
                cfg = (if robotmod AND cFMSAutonomous \<noteq> 0
                       then CFG_SetControlMode DS_CONTROL_AUTONOMOUS cfg else cfg);
                cfg = (if robotmod AND cFMSTeleoperated \<noteq> 0
                       then CFG_SetControlMode DS_CONTROL_TELEOPERATED cfg else cfg);
                cfg = CFG_SetRobotEnabled (robotmod AND cEnabled_2014 \<noteq> 0) cfg;
                cfg = CFG_SetAlliance (get_alliance_2014 alliance) cfg;
                cfg = CFG_SetPosition (get_position_2014 position) cfg
            in (1, cfg))"

definition read_radio_packet_2014 :: "sds option \<Rightarrow> int" where
  "read_radio_packet_2014 data = 0"

definition read_robot_packet_2014 :: "DS_Config \<Rightarrow> sds option \<Rightarrow> int \<times> DS_Config" where
  \<comment> \<open>the byte is promoted to \<open>int\<close> before the product and the quotient, and the
      quotient, at most 170, is stored in a \<open>uint8_t\<close>\<close>
  "read_robot_packet_2014 cfg data =
     (case data of
        None \<Rightarrow> (0, cfg)
      | Some d \<Rightarrow>
          if sdslen d < 1024 then (0, cfg)
          else
            let upper = (word_of_int ((uint (sds_get d 1) * 12) div 0x12) :: u8);
                lower = (word_of_int ((uint (sds_get d 2) * 12) div 0x12) :: u8);
                voltage = real (unat upper) + real (unat lower) / 0xff;
                cfg = CFG_SetRobotVoltage voltage cfg;
                cfg = CFG_SetEmergencyStopped (sds_get d 0 = cEmergencyStopOn) cfg;
                cfg = CFG_SetRobotCode True cfg
            in (1, cfg))"

subsection \<open>Watchdog resets and one-shot commands\<close>

definition reset_fms_2014 :: "state_2014 \<Rightarrow> state_2014" where
  "reset_fms_2014 st = st"

definition reset_radio_2014 :: "state_2014 \<Rightarrow> state_2014" where
  "reset_radio_2014 st = st"

definition reset_robot_2014 :: "state_2014 \<Rightarrow> state_2014" where
  "reset_robot_2014 st = st \<lparr>resync := True, reboot_2014 := False, restart_code_2014 := False\<rparr>"

definition reboot_robot_2014 :: "state_2014 \<Rightarrow> state_2014" where
  "reboot_robot_2014 st = st \<lparr>reboot_2014 := True\<rparr>"

definition restart_robot_code_2014 :: "state_2014 \<Rightarrow> state_2014" where
  "restart_robot_code_2014 st = st \<lparr>restart_code_2014 := True\<rparr>"

section \<open>The 2015 codec (\<open>frc_2015.c\<close>)\<close>

subsection \<open>Protocol bytes\<close>

abbreviation (input) cTest :: u8 where "cTest \<equiv> 0x01"
abbreviation (input) cEnabled_2015 :: u8 where "cEnabled_2015 \<equiv> 0x04"
abbreviation (input) cAutonomous_2015 :: u8 where "cAutonomous_2015 \<equiv> 0x02"
abbreviation (input) cTeleoperated_2015 :: u8 where "cTeleoperated_2015 \<equiv> 0x00"
abbreviation (input) cFMS_Attached_2015 :: u8 where "cFMS_Attached_2015 \<equiv> 0x08"
abbreviation (input) cEmergencyStop :: u8 where "cEmergencyStop \<equiv> 0x80"
abbreviation (input) cRequestReboot :: u8 where "cRequestReboot \<equiv> 0x08"
abbreviation (input) cRequestNormal :: u8 where "cRequestNormal \<equiv> 0x80"
abbreviation (input) cRequestUnconnected :: u8 where "cRequestUnconnected \<equiv> 0x00"
abbreviation (input) cRequestRestartCode :: u8 where "cRequestRestartCode \<equiv> 0x04"
abbreviation (input) cFMS_RadioPing :: u8 where "cFMS_RadioPing \<equiv> 0x10"
abbreviation (input) cFMS_RobotPing :: u8 where "cFMS_RobotPing \<equiv> 0x08"
abbreviation (input) cFMS_RobotComms :: u8 where "cFMS_RobotComms \<equiv> 0x20"
abbreviation (input) cFMS_DS_Version :: u8 where "cFMS_DS_Version \<equiv> 0x00"
abbreviation (input) cTagDate :: u8 where "cTagDate \<equiv> 0x0f"
abbreviation (input) cTagGeneral :: u8 where "cTagGeneral \<equiv> 0x01"
abbreviation (input) cTagJoystick :: u8 where "cTagJoystick \<equiv> 0x0c"
abbreviation (input) cTagTimezone :: u8 where "cTagTimezone \<equiv> 0x10"
abbreviation (input) cRed1 :: u8 where "cRed1 \<equiv> 0x00"
abbreviation (input) cRed2 :: u8 where "cRed2 \<equiv> 0x01"
abbreviation (input) cRed3 :: u8 where "cRed3 \<equiv> 0x02"
abbreviation (input) cBlue1 :: u8 where "cBlue1 \<equiv> 0x03"
abbreviation (input) cBlue2 :: u8 where "cBlue2 \<equiv> 0x04"
abbreviation (input) cBlue3 :: u8 where "cBlue3 \<equiv> 0x05"
abbreviation (input) cRTagCANInfo :: u8 where "cRTagCANInfo \<equiv> 0x0e"
abbreviation (input) cRTagCPUInfo :: u8 where "cRTagCPUInfo \<equiv> 0x05"
abbreviation (input) cRTagRAMInfo :: u8 where "cRTagRAMInfo \<equiv> 0x06"
abbreviation (input) cRTagDiskInfo :: u8 where "cRTagDiskInfo \<equiv> 0x04"
abbreviation (input) cRequestTime :: u8 where "cRequestTime \<equiv> 0x01"
abbreviation (input) cRobotHasCode :: u8 where "cRobotHasCode \<equiv> 0x20"

text \<open>
  The static variables: the date/time request flag and the packet counters
  (\<open>unsigned int\<close>), and the control code flags.
\<close>

record state_2015 =
  send_time_data :: bool
  sent_fms_packets :: u32
  sent_robot_packets_2015 :: u32
  reboot_2015 :: bool
  restart_code_2015 :: bool

subsection \<open>Voltage\<close>

definition c_double_to_int :: "real \<Rightarrow> int" where
  \<comment> \<open>the C conversion of a double to an integer type drops the fraction (towards zero);
      it is undefined when the result does not fit the type\<close>
  "c_double_to_int x = (if 0 \<le> x then \<lfloor>x\<rfloor> else \<lceil>x\<rceil>)"

definition decode_voltage :: "u8 \<Rightarrow> u8 \<Rightarrow> real" where
  "decode_voltage upper lower = real (unat upper) + real (unat lower) / 0xff"

definition encode_voltage :: "real \<Rightarrow> u8 \<times> u8" where
  \<comment> \<open>both pointers are those of the caller's local variables, never null; the result is
      the pair \<open>(upper [0], lower [0])\<close>. The cast binds tighter than the product:
      \<open>(uint8_t) (voltage - (int) voltage) * 100\<close> converts the fraction first.\<close>
  "encode_voltage voltage =
     (let upper = (word_of_int (c_double_to_int voltage) :: u8);
          lower = (word_of_int
                     (uint (word_of_int (c_double_to_int
                        (voltage - real_of_int (c_double_to_int voltage))) :: u8) * 100) :: u8)
      in (upper, lower))"

subsection \<open>Codes sent to the FMS and to the robot\<close>

definition fms_control_code :: "DS_Config \<Rightarrow> u8" where
  "fms_control_code cfg =
     (let code = (0 :: u8);
          code = (case control_mode cfg of
                    DS_CONTROL_TEST \<Rightarrow> code OR cTest
                  | DS_CONTROL_AUTONOMOUS \<Rightarrow> code OR cAutonomous_2015
                  | DS_CONTROL_TELEOPERATED \<Rightarrow> code OR cTeleoperated_2015);
          code = (if emergency_stopped cfg then code OR cEmergencyStop else code);
          code = (if robot_enabled cfg then code OR cEnabled_2015 else code);
          code = (if radio_communications cfg then code OR cFMS_RadioPing else code);
          code = (if robot_communications cfg
                  then (code OR cFMS_RobotComms) OR cFMS_RobotPing else code)
      in code)"

definition get_control_code_2015 :: "DS_Config \<Rightarrow> u8" where
  "get_control_code_2015 cfg =
     (let code = (0 :: u8);
          code = (case control_mode cfg of
                    DS_CONTROL_TEST \<Rightarrow> code OR cTest
                  | DS_CONTROL_AUTONOMOUS \<Rightarrow> code OR cAutonomous_2015
                  | DS_CONTROL_TELEOPERATED \<Rightarrow> code OR cTeleoperated_2015);
          code = (if fms_communications cfg then code OR cFMS_Attached_2015 else code);
          code = (if emergency_stopped cfg then code OR cEmergencyStop else code);
          code = (if robot_enabled cfg then code OR cEnabled_2015 else code)
      in code)"

definition get_request_code :: "DS_Config \<Rightarrow> state_2015 \<Rightarrow> u8" where
  "get_request_code cfg st =
     (let code = cRequestNormal
      in if robot_communications cfg
         then (if reboot_2015 st then cRequestReboot
               else if restart_code_2015 st then cRequestRestartCode
               else code)
         else cRequestUnconnected)"

definition get_station_code :: "DS_Config \<Rightarrow> u8" where
  "get_station_code cfg =
     (if position cfg = DS_POSITION_1
      then (if alliance cfg = DS_ALLIANCE_RED then cRed1 else cBlue1)
      else if position cfg = DS_POSITION_2
      then (if alliance cfg = DS_ALLIANCE_RED then cRed2 else cBlue2)
      else if position cfg = DS_POSITION_3
      then (if alliance cfg = DS_ALLIANCE_RED then cRed3 else cBlue3)
      else cRed1)"

definition get_joystick_size :: "DS_Env \<Rightarrow> nat \<Rightarrow> u8" where
  "get_joystick_size env joystick =
     (let header_size = 2;
          button_data = 3;
          axis_data = DS_GetJoystickNumAxes env joystick + 1;
          hat_data = (DS_GetJoystickNumHats env joystick * 2) + 1
      in of_nat (header_size + button_data + axis_data + hat_data))"

definition get_timezone_data :: "DS_Env \<Rightarrow> sds" where
  \<comment> \<open>\<open>tz\<close> is the zone name of the local time (the literal \<open>"CST"\<close> on Windows)\<close>
  "get_timezone_data env =
     (let data = sdsnewlen 12;
          tz = tm_zone env;
          data = data [0 := 0x0b];
          data = data [1 := cTagDate];
          data = data [2 := 0];
          data = data [3 := 0];
          data = data [4 := ucast (tm_sec env)];
          data = data [5 := ucast (tm_min env)];
          data = data [6 := ucast (tm_hour env)];
          data = data [7 := ucast (tm_yday env)];
          data = data [8 := ucast (tm_mon env)];
          data = data [9 := ucast (tm_year env)];
          data = data [10 := of_nat (sdslen tz)];
          data = data [11 := cTagTimezone];
          data = sdscatsds data tz
      in data)"

definition get_joystick_data_2015 :: "DS_Env \<Rightarrow> sds" where
  \<comment> \<open>\<open>button_flags\<close> is a \<open>uint16_t\<close>: the sum wraps at \<open>2 ^ 16\<close>\<close>
  "get_joystick_data_2015 env =
     for_loop (DS_GetJoystickCount env) (\<lambda>i data.
       let data = DS_Append data (get_joystick_size env i);
           data = DS_Append data cTagJoystick;
           data = DS_Append data (of_nat (DS_GetJoystickNumAxes env i));
           data = for_loop (DS_GetJoystickNumAxes env i) (\<lambda>j data.
                    DS_Append data (DS_GetFByte env (DS_GetJoystickAxis env i j) 1)) data;
           button_flags = for_loop (DS_GetJoystickNumButtons env i) (\<lambda>j (flags :: u16).
                    flags + (if DS_GetJoystickButton env i j then 2 ^ j else 0)) 0;
           data = DS_Append data (of_nat (DS_GetJoystickNumButtons env i));
           data = DS_Append data (ucast (drop_bit 8 (button_flags AND 0xff00)));
           data = DS_Append data (ucast (button_flags AND 0xff));
           data = DS_Append data (of_nat (DS_GetJoystickNumHats env i));
           data = for_loop (DS_GetJoystickNumHats env i) (\<lambda>j data.
                    let data = DS_Append data
                                 (ucast (drop_bit 8 (DS_GetJoystickHat env i j AND 0xff00)));
                        data = DS_Append data (ucast (DS_GetJoystickHat env i j AND 0xff))
                    in data) data
       in data) sdsempty"

definition read_extended :: "DS_Config \<Rightarrow> sds \<Rightarrow> nat \<Rightarrow> DS_Config" where
  \<comment> \<open>called with a buffer that is not null\<close>
  "read_extended cfg data offset =
     (let tag = sds_get data (offset + 1)
      in if tag = cRTagCANInfo then CFG_SetCANUtilization (sds_get data 10) cfg
         else if tag = cRTagCPUInfo then CFG_SetRobotCPUUsage (sds_get data 3) cfg
         else if tag = cRTagRAMInfo then CFG_SetRobotRAMUsage (sds_get data 4) cfg
         else if tag = cRTagDiskInfo then CFG_SetRobotDiskUsage (sds_get data 4) cfg
         else cfg)"

definition get_alliance_2015 :: "u8 \<Rightarrow> DS_Alliance" where
  "get_alliance_2015 byte =
     (if byte = cBlue1 \<or> byte = cBlue2 \<or> byte = cBlue3 then DS_ALLIANCE_BLUE
      else DS_ALLIANCE_RED)"

definition get_position_2015 :: "u8 \<Rightarrow> DS_Position" where
  "get_position_2015 byte =
     (if byte = cRed1 \<or> byte = cBlue1 then DS_POSITION_1
      else if byte = cRed2 \<or> byte = cBlue2 then DS_POSITION_2
      else if byte = cRed3 \<or> byte = cBlue3 then DS_POSITION_3
      else DS_POSITION_1)"

subsection \<open>Packets sent\<close>

definition create_fms_packet_2015 :: "DS_Config \<Rightarrow> state_2015 \<Rightarrow> sds \<times> state_2015" where
  "create_fms_packet_2015 cfg st =
     (let data = sdsnewlen 8;
          (integer, decimal) = encode_voltage (robot_voltage cfg);
          data = data [0 := ucast (drop_bit 8 (sent_fms_packets st AND 0xff00))];
          data = data [1 := ucast (sent_fms_packets st AND 0xff)];
          data = data [2 := cFMS_DS_Version];
          data = data [3 := fms_control_code cfg];
          data = data [4 := ucast (drop_bit 8 (team_number cfg AND 0xff00))];
          data = data [5 := ucast (team_number cfg AND 0xff)];
          data = data [6 := integer];
          data = data [7 := decimal]
      in (data, st \<lparr>sent_fms_packets := sent_fms_packets st + 1\<rparr>))"

definition create_radio_packet_2015 :: sds where
  "create_radio_packet_2015 = sdsempty"

definition create_robot_packet_2015 :: "DS_Env \<Rightarrow> DS_Config \<Rightarrow> state_2015 \<Rightarrow> sds \<times> state_2015" where
  "create_robot_packet_2015 env cfg st =
     (let data = sdsnewlen 6;
          data = data [0 := ucast (drop_bit 8 (sent_robot_packets_2015 st AND 0xff00))];
          data = data [1 := ucast (sent_robot_packets_2015 st AND 0xff)];
          data = data [2 := cTagGeneral];
          data = data [3 := get_control_code_2015 cfg];
          data = data [4 := get_request_code cfg st];
          data = data [5 := get_station_code cfg];
          data = (if send_time_data st then sdscatsds data (get_timezone_data env)
                  else if 5 < sent_robot_packets_2015 st
                  then sdscatsds data (get_joystick_data_2015 env)
                  else data)
      in (data, st \<lparr>sent_robot_packets_2015 := sent_robot_packets_2015 st + 1\<rparr>))"

subsection \<open>Packets received\<close>

definition read_fms_packet_2015 :: "DS_Config \<Rightarrow> sds option \<Rightarrow> int \<times> DS_Config" where
  "read_fms_packet_2015 cfg data =
     (case data of
        None \<Rightarrow> (0, cfg)
      | Some d \<Rightarrow>
          if sdslen d < 22 then (0, cfg)
          else
            let control = sds_get d 3;
                station = sds_get d 5;
                cfg = CFG_SetRobotEnabled (control AND cEnabled_2015 \<noteq> 0) cfg;
                cfg = (if control AND cTeleoperated_2015 \<noteq> 0
                       then CFG_SetControlMode DS_CONTROL_TELEOPERATED cfg
                       else if control AND cAutonomous_2015 \<noteq> 0
                       then CFG_SetControlMode DS_CONTROL_AUTONOMOUS cfg
                       else if control AND cTest \<noteq> 0
                       then CFG_SetControlMode DS_CONTROL_TEST cfg
                       else cfg);
                cfg = CFG_SetAlliance (get_alliance_2015 station) cfg;
                cfg = CFG_SetPosition (get_position_2015 station) cfg
            in (1, cfg))"

definition read_radio_packet_2015 :: "sds option \<Rightarrow> int" where
  "read_radio_packet_2015 data = 0"

definition read_robot_packet_2015 ::
    "DS_Config \<Rightarrow> state_2015 \<Rightarrow> sds option \<Rightarrow> int \<times> DS_Config \<times> state_2015" where
  "read_robot_packet_2015 cfg st data =
     (case data of
        None \<Rightarrow> (0, cfg, st)
      | Some d \<Rightarrow>
          if sdslen d < 7 then (0, cfg, st)
          else
            let control = sds_get d 3;
                rstatus = sds_get d 4;
                request = sds_get d 7;
                cfg = CFG_SetRobotCode (rstatus AND cRobotHasCode \<noteq> 0) cfg;
                cfg = CFG_SetEmergencyStopped (control AND cEmergencyStop \<noteq> 0) cfg;
                st = st \<lparr>send_time_data := (request = cRequestTime)\<rparr>;
                upper = sds_get d 5;
                lower = sds_get d 6;
                cfg = CFG_SetRobotVoltage (decode_voltage upper lower) cfg;
                cfg = (if 9 < sdslen d then read_extended cfg d 8 else cfg)
            in (1, cfg, st))"

subsection \<open>Watchdog resets and one-shot commands\<close>

definition reset_fms_2015 :: "state_2015 \<Rightarrow> state_2015" where
  "reset_fms_2015 st = st"

definition reset_radio_2015 :: "state_2015 \<Rightarrow> state_2015" where
  "reset_radio_2015 st = st"

definition reset_robot_2015 :: "state_2015 \<Rightarrow> state_2015" where
  "reset_robot_2015 st =
     st \<lparr>reboot_2015 := False, restart_code_2015 := False, send_time_data := False\<rparr>"

definition reboot_robot_2015 :: "state_2015 \<Rightarrow> state_2015" where
  "reboot_robot_2015 st = st \<lparr>reboot_2015 := True\<rparr>"

definition restart_robot_code_2015 :: "state_2015 \<Rightarrow> state_2015" where
  "restart_robot_code_2015 st = st \<lparr>restart_code_2015 := True\<rparr>"

section \<open>The protocol descriptor\<close>

text \<open>
  \<open>DS_GetProtocolFRC_2014\<close> and \<open>DS_GetProtocolFRC_2015\<close> publish the functions above
  through the function pointers of a \<open>DS_Protocol\<close>. A call through the descriptor is a
  value of \<open>DS_Call\<close>; it returns a packet, a parser's status or nothing, and leaves a
  registry and a codec state behind.
\<close>

datatype DS_Call =
    Create_FMS_Packet
  | Create_Radio_Packet
  | Create_Robot_Packet
  | Read_FMS_Packet "sds option"
  | Read_Radio_Packet "sds option"
  | Read_Robot_Packet "sds option"
  | Reset_FMS
  | Reset_Radio
  | Reset_Robot
  | Reboot_Robot
  | Restart_Robot_Code

datatype DS_Result = Packet sds | Status int | Nothing

fun call_2014 ::
    "DS_Env \<Rightarrow> DS_Call \<Rightarrow> DS_Config \<times> state_2014 \<Rightarrow> DS_Result \<times> DS_Config \<times> state_2014" where
  "call_2014 env Create_FMS_Packet (cfg, st) = (Packet create_fms_packet_2014, cfg, st)"
| "call_2014 env Create_Radio_Packet (cfg, st) = (Packet create_radio_packet_2014, cfg, st)"
| "call_2014 env Create_Robot_Packet (cfg, st) =
     (let (data, st) = create_robot_packet_2014 env cfg st in (Packet data, cfg, st))"
| "call_2014 env (Read_FMS_Packet data) (cfg, st) =
     (let (r, cfg) = read_fms_packet_2014 cfg data in (Status r, cfg, st))"
| "call_2014 env (Read_Radio_Packet data) (cfg, st) = (Status (read_radio_packet_2014 data), cfg, st)"
| "call_2014 env (Read_Robot_Packet data) (cfg, st) =
     (let (r, cfg) = read_robot_packet_2014 cfg data in (Status r, cfg, st))"
| "call_2014 env Reset_FMS (cfg, st) = (Nothing, cfg, reset_fms_2014 st)"
| "call_2014 env Reset_Radio (cfg, st) = (Nothing, cfg, reset_radio_2014 st)"
| "call_2014 env Reset_Robot (cfg, st) = (Nothing, cfg, reset_robot_2014 st)"
| "call_2014 env Reboot_Robot (cfg, st) = (Nothing, cfg, reboot_robot_2014 st)"
| "call_2014 env Restart_Robot_Code (cfg, st) = (Nothing, cfg, restart_robot_code_2014 st)"

fun call_2015 ::
    "DS_Env \<Rightarrow> DS_Call \<Rightarrow> DS_Config \<times> state_2015 \<Rightarrow> DS_Result \<times> DS_Config \<times> state_2015" where
  "call_2015 env Create_FMS_Packet (cfg, st) =
     (let (data, st) = create_fms_packet_2015 cfg st in (Packet data, cfg, st))"
| "call_2015 env Create_Radio_Packet (cfg, st) = (Packet create_radio_packet_2015, cfg, st)"
| "call_2015 env Create_Robot_Packet (cfg, st) =
     (let (data, st) = create_robot_packet_2015 env cfg st in (Packet data, cfg, st))"
| "call_2015 env (Read_FMS_Packet data) (cfg, st) =
     (let (r, cfg) = read_fms_packet_2015 cfg data in (Status r, cfg, st))"
| "call_2015 env (Read_Radio_Packet data) (cfg, st) = (Status (read_radio_packet_2015 data), cfg, st)"
| "call_2015 env (Read_Robot_Packet data) (cfg, st) =
     (let (r, cfg, st) = read_robot_packet_2015 cfg st data in (Status r, cfg, st))"
| "call_2015 env Reset_FMS (cfg, st) = (Nothing, cfg, reset_fms_2015 st)"
| "call_2015 env Reset_Radio (cfg, st) = (Nothing, cfg, reset_radio_2015 st)"
| "call_2015 env Reset_Robot (cfg, st) = (Nothing, cfg, reset_robot_2015 st)"
| "call_2015 env Reboot_Robot (cfg, st) = (Nothing, cfg, reboot_robot_2015 st)"
| "call_2015 env Restart_Robot_Code (cfg, st) = (Nothing, cfg, restart_robot_code_2015 st)"

text \<open>
  The scheduler calls the descriptor again and again, and between two calls the
  registry may be written by its other users (the user interface, the watchdogs): a
  scheduler step is a call together with the registry it finds.
\<close>

fun run_2014 :: "DS_Env \<Rightarrow> (DS_Call \<times> DS_Config) list \<Rightarrow> state_2014 \<Rightarrow> state_2014" where
  "run_2014 env [] st = st"
| "run_2014 env ((c, cfg) # cs) st = run_2014 env cs (snd (snd (call_2014 env c (cfg, st))))"

fun run_2015 :: "DS_Env \<Rightarrow> (DS_Call \<times> DS_Config) list \<Rightarrow> state_2015 \<Rightarrow> state_2015" where
  "run_2015 env [] st = st"
| "run_2015 env ((c, cfg) # cs) st = run_2015 env cs (snd (snd (call_2015 env c (cfg, st))))"

definition packet_counter :: "sds \<Rightarrow> u16" where
  \<comment> \<open>the 16-bit number that bytes 0 and 1 of a packet hold, most significant byte first\<close>
  "packet_counter data = word_cat (data ! 0) (data ! 1)"

text \<open>
  The datagrams that a parser with a minimum of \<open>n\<close> bytes must not consume: the null
  pointer and the buffers shorter than \<open>n\<close>.
\<close>

definition below_minimum :: "nat \<Rightarrow> sds option \<Rightarrow> bool" where
  "below_minimum n data = (case data of None \<Rightarrow> True | Some d \<Rightarrow> length d < n)"

section \<open>Sample inputs\<close>

text \<open>
  An environment without joysticks, the registry of an enabled teleoperated robot of
  team 3794 at red 1, the codec states at start-up, and the datagrams of the scenarios.
\<close>

definition quiet_env :: DS_Env where
  "quiet_env =
     \<lparr>DS_GetFByte = (\<lambda>x m. 0), DS_CRC32 = (\<lambda>seed data n. 0), sizeof_pointer = 8,
      DS_GetJoystickCount = 0, DS_GetJoystickNumAxes = (\<lambda>i. 0),
      DS_GetJoystickNumButtons = (\<lambda>i. 0), DS_GetJoystickNumHats = (\<lambda>i. 0),
      DS_GetJoystickAxis = (\<lambda>i j. 0), DS_GetJoystickButton = (\<lambda>i j. False),
      DS_GetJoystickHat = (\<lambda>i j. 0),
      tm_sec = 0, tm_min = 0, tm_hour = 0, tm_yday = 0, tm_mon = 0, tm_year = 70,
      tm_zone = [0x55, 0x54, 0x43]\<rparr>"

definition idle_config :: DS_Config where
  "idle_config =
     \<lparr>team_number = 3794, control_mode = DS_CONTROL_TELEOPERATED, alliance = DS_ALLIANCE_RED,
      position = DS_POSITION_1, robot_enabled = True, emergency_stopped = False,
      fms_communications = False, radio_communications = False,
      robot_communications = False, robot_code = False, robot_voltage = 0,
      robot_cpu_usage = 0, robot_ram_usage = 0, robot_disk_usage = 0, can_utilization = 0\<rparr>"

definition initial_state_2014 :: state_2014 where
  "initial_state_2014 =
     \<lparr>sent_robot_packets_2014 = 0, resync = False, reboot_2014 = False,
      restart_code_2014 = False\<rparr>"

definition initial_state_2015 :: state_2015 where
  "initial_state_2015 =
     \<lparr>send_time_data = False, sent_fms_packets = 0, sent_robot_packets_2015 = 0,
      reboot_2015 = False, restart_code_2015 = False\<rparr>"

definition robot_reply_sample :: sds where
  "robot_reply_sample = [0x00, 0x51, 0x01, 0x00, 0x31, 0x00, 0x01, 0x00]"

definition voltage_reply_sample :: sds where
  "voltage_reply_sample = (replicate 1024 0) [1 := 0x12, 2 := 0x14]"

definition fms_scenario_config :: DS_Config where
  "fms_scenario_config =
     \<lparr>team_number = 3794, control_mode = DS_CONTROL_TELEOPERATED, alliance = DS_ALLIANCE_RED,
      position = DS_POSITION_1, robot_enabled = True, emergency_stopped = False,
      fms_communications = True, radio_communications = False,
      robot_communications = True, robot_code = True, robot_voltage = 12.5,
      robot_cpu_usage = 0, robot_ram_usage = 0, robot_disk_usage = 0, can_utilization = 0\<rparr>"

definition fms_scenario_state :: state_2015 where
  "fms_scenario_state =
     \<lparr>send_time_data = False, sent_fms_packets = 7, sent_robot_packets_2015 = 0,
      reboot_2015 = False, restart_code_2015 = False\<rparr>"

text \<open>
  Scheduler steps: some without a robot packet, some without an FMS packet, some without
  a reset of the robot.
\<close>

definition steps_without_robot_packet :: "(DS_Call \<times> DS_Config) list" where
  "steps_without_robot_packet =
     [(Create_FMS_Packet, idle_config),
      (Read_Robot_Packet (Some robot_reply_sample), idle_config),
      (Reset_Robot, fms_scenario_config), (Reboot_Robot, idle_config)]"

definition steps_without_fms_packet :: "(DS_Call \<times> DS_Config) list" where
  "steps_without_fms_packet =
     [(Create_Robot_Packet, idle_config), (Read_FMS_Packet None, idle_config),
      (Reset_Robot, fms_scenario_config), (Create_Robot_Packet, fms_scenario_config)]"

definition steps_without_reset :: "(DS_Call \<times> DS_Config) list" where
  "steps_without_reset =
     [(Create_Robot_Packet, idle_config), (Create_FMS_Packet, idle_config),
      (Read_Robot_Packet (Some robot_reply_sample), idle_config),
      (Restart_Robot_Code, fms_scenario_config), (Create_Robot_Packet, fms_scenario_config),
      (Reset_FMS, idle_config)]"

section \<open>Properties of the codecs\<close>

subsection \<open>The 2014 robot packet and its control byte\<close>

lemma length_for_loop_append:
  "(\<And>i b. length (body i b) = length b + k) \<Longrightarrow>
   length (for_loop n body buf) = length buf + n * k"
  unfolding for_loop_def
  by (induction n arbitrary: buf) simp_all

lemma length_get_joystick_data_2014: "length (get_joystick_data_2014 env) = 32"
  unfolding get_joystick_data_2014_def
  apply (subst length_for_loop_append [where k = 8])
   apply (simp add: Let_def DS_Append_def)
   apply (subst length_for_loop_append [where k = 1])
    apply (simp_all add: DS_Append_def sdsempty_def)
  done

lemmas robot_packet_2014_simps =
  create_robot_packet_2014_def Let_def sdsnewlen_def sdscatsds_def sdsgrowzero_def
  length_get_joystick_data_2014 nth_append

lemma robot_packet_2014_length: "length (fst (create_robot_packet_2014 env cfg st)) = 1024"
  by (simp add: robot_packet_2014_simps)

lemma robot_packet_2014_header:
  "take 8 (fst (create_robot_packet_2014 env cfg st)) =
     [ucast (drop_bit 8 (sent_robot_packets_2014 st AND 0xff00)),
      ucast (sent_robot_packets_2014 st AND 0xff),
      get_control_code_2014 cfg st, 0,
      ucast (drop_bit 8 (team_number cfg AND 0xff00)),
      ucast (team_number cfg AND 0xff),
      get_alliance_code cfg, get_position_code cfg]"
  by (simp add: robot_packet_2014_simps get_digital_inputs_def numeral_eq_Suc
      take_Suc_conv_app_nth)

lemma robot_packet_2014_version:
  "map (\<lambda>i. fst (create_robot_packet_2014 env cfg st) ! i) [72..<80] =
     [0x30, 0x34, 0x30, 0x31, 0x31, 0x36, 0x30, 0x30]"
  by (simp add: robot_packet_2014_simps upt_rec_numeral)

lemma robot_packet_2014_control:
  "fst (create_robot_packet_2014 env cfg st) ! 2 = get_control_code_2014 cfg st"
  using robot_packet_2014_header [of env cfg st, THEN arg_cong, of "\<lambda>xs. xs ! 2"]
  by simp

lemma robot_packet_2014_state:
  "snd (create_robot_packet_2014 env cfg st) =
     st \<lparr>sent_robot_packets_2014 := sent_robot_packets_2014 st + 1\<rparr>"
  by (simp add: create_robot_packet_2014_def Let_def)

lemma get_control_code_2014_cases:
  "get_control_code_2014 cfg st =
     (if reboot_2014 st then 0x80
      else if emergency_stopped cfg then 0x00
      else 0x40
        OR (case control_mode cfg of
              DS_CONTROL_TEST \<Rightarrow> 0x02
            | DS_CONTROL_AUTONOMOUS \<Rightarrow> 0x10
            | DS_CONTROL_TELEOPERATED \<Rightarrow> 0x00)
        OR (if robot_enabled cfg then 0x20 else 0x00)
        OR (if resync st then 0x04 else 0x00)
        OR (if fms_communications cfg then 0x08 else 0x00))"
  by (simp add: get_control_code_2014_def Let_def split: DS_ControlMode.splits)

text \<open>
  C1: in the 2014 codec, byte 2 of every robot packet is the control byte, with the
  overrides in the order the code applies them: \<open>0x80\<close> when a reboot is pending, whatever
  else holds (the reboot is tested last, so it wins over the emergency stop); otherwise
  \<open>0x00\<close> when emergency-stopped; otherwise \<open>0x40\<close> ORed with the mode bits (Test
  \<open>0x02\<close>, Autonomous \<open>0x10\<close>, Teleoperated \<open>0x00\<close>), \<open>0x20\<close> when enabled, \<open>0x04\<close> when a
  resync is pending and \<open>0x08\<close> with FMS communications.
\<close>

theorem control_byte_2014_precedence:
  "fst (create_robot_packet_2014 env cfg st) ! 2 =
     (if reboot_2014 st then 0x80
      else if emergency_stopped cfg then 0x00
      else 0x40
        OR (case control_mode cfg of
              DS_CONTROL_TEST \<Rightarrow> 0x02
            | DS_CONTROL_AUTONOMOUS \<Rightarrow> 0x10
            | DS_CONTROL_TELEOPERATED \<Rightarrow> 0x00)
        OR (if robot_enabled cfg then 0x20 else 0x00)
        OR (if resync st then 0x04 else 0x00)
        OR (if fms_communications cfg then 0x08 else 0x00))"
  by (simp only: robot_packet_2014_control get_control_code_2014_cases)

text \<open>
  C2: every robot packet of the 2014 codec is exactly 1024 bytes long and its bytes 72
  to 79 are the ASCII text \<open>04011600\<close>. For a teleoperated, enabled robot (so not
  emergency-stopped) of team 3794 at red 1, without FMS communications, with no flag
  pending and the counter at 0, bytes 0 to 7 are \<open>00 00 60 00 0E D2 52 31\<close>.
\<close>

theorem robot_packet_2014_layout:
  "length (fst (create_robot_packet_2014 env cfg st)) = 1024 \<and>
   map (\<lambda>i. fst (create_robot_packet_2014 env cfg st) ! i) [72..<80] =
     [0x30, 0x34, 0x30, 0x31, 0x31, 0x36, 0x30, 0x30] \<and>
   (control_mode cfg = DS_CONTROL_TELEOPERATED \<and> team_number cfg = 3794 \<and>
    alliance cfg = DS_ALLIANCE_RED \<and> position cfg = DS_POSITION_1 \<and>
    robot_enabled cfg \<and> \<not> emergency_stopped cfg \<and> \<not> fms_communications cfg \<and>
    \<not> resync st \<and> \<not> reboot_2014 st \<and> \<not> restart_code_2014 st \<and>
    sent_robot_packets_2014 st = 0 \<longrightarrow>
    take 8 (fst (create_robot_packet_2014 env cfg st)) =
      [0x00, 0x00, 0x60, 0x00, 0x0E, 0xD2, 0x52, 0x31])"
proof (intro conjI impI)
  show "length (fst (create_robot_packet_2014 env cfg st)) = 1024"
    by (rule robot_packet_2014_length)
  show "map (\<lambda>i. fst (create_robot_packet_2014 env cfg st) ! i) [72..<80] =
     [0x30, 0x34, 0x30, 0x31, 0x31, 0x36, 0x30, 0x30]"
    by (rule robot_packet_2014_version)
next
  assume "control_mode cfg = DS_CONTROL_TELEOPERATED \<and> team_number cfg = 3794 \<and>
    alliance cfg = DS_ALLIANCE_RED \<and> position cfg = DS_POSITION_1 \<and>
    robot_enabled cfg \<and> \<not> emergency_stopped cfg \<and> \<not> fms_communications cfg \<and>
    \<not> resync st \<and> \<not> reboot_2014 st \<and> \<not> restart_code_2014 st \<and>
    sent_robot_packets_2014 st = 0"
  then show "take 8 (fst (create_robot_packet_2014 env cfg st)) =
      [0x00, 0x00, 0x60, 0x00, 0x0E, 0xD2, 0x52, 0x31]"
    by (simp add: robot_packet_2014_header get_control_code_2014_cases
        get_alliance_code_def get_position_code_def)
qed

text \<open>
  C2, witness: the sample registry and the start-up state meet the conditions of the
  scenario, and the packet built from them starts with the eight bytes.
\<close>

theorem robot_packet_2014_layout_witness:
  "control_mode idle_config = DS_CONTROL_TELEOPERATED \<and> team_number idle_config = 3794 \<and>
   alliance idle_config = DS_ALLIANCE_RED \<and> position idle_config = DS_POSITION_1 \<and>
   robot_enabled idle_config \<and> \<not> emergency_stopped idle_config \<and>
   \<not> fms_communications idle_config \<and>
   \<not> resync initial_state_2014 \<and> \<not> reboot_2014 initial_state_2014 \<and>
   \<not> restart_code_2014 initial_state_2014 \<and>
   sent_robot_packets_2014 initial_state_2014 = 0 \<and>
   take 8 (fst (create_robot_packet_2014 quiet_env idle_config initial_state_2014)) =
     [0x00, 0x00, 0x60, 0x00, 0x0E, 0xD2, 0x52, 0x31]"
proof -
  have h: "control_mode idle_config = DS_CONTROL_TELEOPERATED \<and> team_number idle_config = 3794 \<and>
    alliance idle_config = DS_ALLIANCE_RED \<and> position idle_config = DS_POSITION_1 \<and>
    robot_enabled idle_config \<and> \<not> emergency_stopped idle_config \<and>
    \<not> fms_communications idle_config \<and>
    \<not> resync initial_state_2014 \<and> \<not> reboot_2014 initial_state_2014 \<and>
    \<not> restart_code_2014 initial_state_2014 \<and>
    sent_robot_packets_2014 initial_state_2014 = 0"
    by (simp add: idle_config_def initial_state_2014_def)
  from robot_packet_2014_layout [of quiet_env idle_config initial_state_2014] h
  show ?thesis by blast
qed

subsection \<open>Datagrams below the minimum length\<close>

text \<open>
  C3: a datagram that is null or shorter than the parser's minimum (2014: 5 bytes from
  the FMS, 1024 from the robot; 2015: 22 from the FMS, 7 from the robot) is not consumed:
  the parser returns 0, and the registry and the codec state are what they were.
\<close>

theorem short_datagram_not_consumed:
  "(below_minimum 5 data \<longrightarrow>
      call_2014 env (Read_FMS_Packet data) (cfg, st14) = (Status 0, cfg, st14)) \<and>
   (below_minimum 1024 data \<longrightarrow>
      call_2014 env (Read_Robot_Packet data) (cfg, st14) = (Status 0, cfg, st14)) \<and>
   (below_minimum 22 data \<longrightarrow>
      call_2015 env (Read_FMS_Packet data) (cfg, st15) = (Status 0, cfg, st15)) \<and>
   (below_minimum 7 data \<longrightarrow>
      call_2015 env (Read_Robot_Packet data) (cfg, st15) = (Status 0, cfg, st15))"
  by (simp add: below_minimum_def read_fms_packet_2014_def read_robot_packet_2014_def
      read_fms_packet_2015_def read_robot_packet_2015_def sdslen_def split: option.splits)

text \<open>
  C3, witness: a datagram of three bytes is below all four minimums and none of the four
  parsers consumes it.
\<close>

theorem short_datagram_not_consumed_witness:
  "below_minimum 5 (Some [0x00, 0x51, 0x01]) \<and> below_minimum 1024 (Some [0x00, 0x51, 0x01]) \<and>
   below_minimum 22 (Some [0x00, 0x51, 0x01]) \<and> below_minimum 7 (Some [0x00, 0x51, 0x01]) \<and>
   call_2014 quiet_env (Read_FMS_Packet (Some [0x00, 0x51, 0x01]))
     (idle_config, initial_state_2014) = (Status 0, idle_config, initial_state_2014) \<and>
   call_2014 quiet_env (Read_Robot_Packet (Some [0x00, 0x51, 0x01]))
     (idle_config, initial_state_2014) = (Status 0, idle_config, initial_state_2014) \<and>
   call_2015 quiet_env (Read_FMS_Packet (Some [0x00, 0x51, 0x01]))
     (idle_config, initial_state_2015) = (Status 0, idle_config, initial_state_2015) \<and>
   call_2015 quiet_env (Read_Robot_Packet (Some [0x00, 0x51, 0x01]))
     (idle_config, initial_state_2015) = (Status 0, idle_config, initial_state_2015)"
proof -
  have h: "below_minimum 5 (Some [0x00, 0x51, 0x01]) \<and>
    below_minimum 1024 (Some [0x00, 0x51, 0x01]) \<and>
    below_minimum 22 (Some [0x00, 0x51, 0x01]) \<and> below_minimum 7 (Some [0x00, 0x51, 0x01])"
    by (simp add: below_minimum_def)
  from h short_datagram_not_consumed [of "Some [0x00, 0x51, 0x01]" quiet_env idle_config
      initial_state_2014 initial_state_2015]
  show ?thesis by blast
qed

subsection \<open>The 2015 robot reply\<close>

lemma read_extended_keeps:
  "robot_code (read_extended cfg d k) = robot_code cfg"
  "emergency_stopped (read_extended cfg d k) = emergency_stopped cfg"
  "robot_voltage (read_extended cfg d k) = robot_voltage cfg"
  by (simp_all add: read_extended_def Let_def CFG_SetCANUtilization_def
      CFG_SetRobotCPUUsage_def CFG_SetRobotRAMUsage_def CFG_SetRobotDiskUsage_def)

lemma read_robot_packet_2015_long:
  assumes "7 \<le> length d"
  shows "fst (read_robot_packet_2015 cfg st (Some d)) = 1"
    and "robot_code (fst (snd (read_robot_packet_2015 cfg st (Some d)))) =
           (d ! 4 AND 0x20 \<noteq> 0)"
    and "emergency_stopped (fst (snd (read_robot_packet_2015 cfg st (Some d)))) =
           (d ! 3 AND 0x80 \<noteq> 0)"
    and "robot_voltage (fst (snd (read_robot_packet_2015 cfg st (Some d)))) =
           real (unat (d ! 5)) + real (unat (d ! 6)) / 255"
    and "send_time_data (snd (snd (read_robot_packet_2015 cfg st (Some d)))) =
           (7 < length d \<and> d ! 7 = 0x01)"
  using assms
  by (simp_all add: read_robot_packet_2015_def Let_def sdslen_def sds_get_def
      read_extended_keeps CFG_SetRobotCode_def CFG_SetEmergencyStopped_def
      CFG_SetRobotVoltage_def decode_voltage_def)

text \<open>
  C4, counterexample: C4 says that the reply \<open>00 51 01 00 31 00 01 00\<close> leaves the robot
  code absent, a voltage of about 49 and the date/time request set. The parser reads the
  status from byte 4, which is \<open>0x31\<close> and has bit \<open>0x20\<close> set, the voltage from bytes 5 and
  6, which are \<open>00 01\<close>, and the request from byte 7, which is \<open>0x00\<close>: the robot code is
  present, the voltage is 1/255 and the request flag is clear.
\<close>

theorem read_robot_packet_2015_sample_counterexample:
  "robot_code (fst (snd (read_robot_packet_2015 idle_config initial_state_2015
      (Some robot_reply_sample)))) \<and>
   robot_voltage (fst (snd (read_robot_packet_2015 idle_config initial_state_2015
      (Some robot_reply_sample)))) = 1 / 255 \<and>
   \<not> send_time_data (snd (snd (read_robot_packet_2015 idle_config initial_state_2015
      (Some robot_reply_sample))))"
  by (simp add: read_robot_packet_2015_long robot_reply_sample_def)

text \<open>
  C4, amended: on a datagram of at least 7 bytes the 2015 robot parser returns 1 and
  reads the control byte from byte 3, the status from byte 4, the voltage from bytes 5
  and 6 and the request from byte 7 (the zero terminator of the buffer when the datagram
  has exactly 7 bytes): the robot code is present when the status has bit \<open>0x20\<close>, the
  robot is emergency-stopped when the control byte has bit \<open>0x80\<close>, the voltage is
  upper + lower / 255, and date and time are requested when the request byte is \<open>0x01\<close>.
  The reply \<open>00 51 01 00 31 00 01 00\<close> sets the robot code present, the emergency stop
  off, the voltage to 0 + 1/255 and the request flag off.
\<close>

theorem read_robot_packet_2015_fields:
  "(7 \<le> length d \<longrightarrow>
      fst (read_robot_packet_2015 cfg st (Some d)) = 1 \<and>
      robot_code (fst (snd (read_robot_packet_2015 cfg st (Some d)))) =
        (d ! 4 AND 0x20 \<noteq> 0) \<and>
      emergency_stopped (fst (snd (read_robot_packet_2015 cfg st (Some d)))) =
        (d ! 3 AND 0x80 \<noteq> 0) \<and>
      robot_voltage (fst (snd (read_robot_packet_2015 cfg st (Some d)))) =
        real (unat (d ! 5)) + real (unat (d ! 6)) / 255 \<and>
      send_time_data (snd (snd (read_robot_packet_2015 cfg st (Some d)))) =
        (7 < length d \<and> d ! 7 = 0x01)) \<and>
   robot_code (fst (snd (read_robot_packet_2015 cfg st (Some robot_reply_sample)))) \<and>
   \<not> emergency_stopped (fst (snd (read_robot_packet_2015 cfg st (Some robot_reply_sample)))) \<and>
   robot_voltage (fst (snd (read_robot_packet_2015 cfg st (Some robot_reply_sample)))) =
     0 + 1 / 255 \<and>
   \<not> send_time_data (snd (snd (read_robot_packet_2015 cfg st (Some robot_reply_sample))))"
proof -
  have "7 \<le> length robot_reply_sample"
    by (simp add: robot_reply_sample_def)
  note sample = read_robot_packet_2015_long [OF this, of cfg st]
  have "robot_code (fst (snd (read_robot_packet_2015 cfg st (Some robot_reply_sample))))"
    and "\<not> emergency_stopped (fst (snd (read_robot_packet_2015 cfg st (Some robot_reply_sample))))"
    and "robot_voltage (fst (snd (read_robot_packet_2015 cfg st (Some robot_reply_sample)))) =
     0 + 1 / 255"
    and "\<not> send_time_data (snd (snd (read_robot_packet_2015 cfg st (Some robot_reply_sample))))"
    unfolding sample by (simp_all add: robot_reply_sample_def)
  then show ?thesis
    using read_robot_packet_2015_long [of d cfg st] by blast
qed

text \<open>
  C4, witness: a reply of 8 bytes with control \<open>0x80\<close>, status \<open>0x20\<close>, voltage bytes
  \<open>0c 33\<close> and request \<open>0x01\<close> sets all four fields.
\<close>

theorem read_robot_packet_2015_fields_witness:
  "7 \<le> length [0x00, 0x52, 0x01, 0x80, 0x20, 0x0c, 0x33, 0x01 :: u8] \<and>
   fst (read_robot_packet_2015 idle_config initial_state_2015
     (Some [0x00, 0x52, 0x01, 0x80, 0x20, 0x0c, 0x33, 0x01])) = 1 \<and>
   robot_code (fst (snd (read_robot_packet_2015 idle_config initial_state_2015
     (Some [0x00, 0x52, 0x01, 0x80, 0x20, 0x0c, 0x33, 0x01])))) \<and>
   emergency_stopped (fst (snd (read_robot_packet_2015 idle_config initial_state_2015
     (Some [0x00, 0x52, 0x01, 0x80, 0x20, 0x0c, 0x33, 0x01])))) \<and>
   robot_voltage (fst (snd (read_robot_packet_2015 idle_config initial_state_2015
     (Some [0x00, 0x52, 0x01, 0x80, 0x20, 0x0c, 0x33, 0x01])))) = 12 + 51 / 255 \<and>
   send_time_data (snd (snd (read_robot_packet_2015 idle_config initial_state_2015
     (Some [0x00, 0x52, 0x01, 0x80, 0x20, 0x0c, 0x33, 0x01]))))"
  using read_robot_packet_2015_fields [of "[0x00, 0x52, 0x01, 0x80, 0x20, 0x0c, 0x33, 0x01]"
      idle_config initial_state_2015]
  by simp

subsection \<open>The voltage of the 2014 robot reply\<close>

lemma rule_of_three:
  "unat (word_of_int ((uint x * 12) div 0x12) :: u8) = (unat x * 12) div 18" for x :: u8
proof -
  have "uint x < 256"
    using uint_bounded [of x] by simp
  then have "(uint x * 12) div 18 < 256"
    by simp
  moreover have "0 \<le> (uint x * 12) div 18"
    by (simp only: pos_imp_zdiv_nonneg_iff) simp
  ultimately have "uint (word_of_int ((uint x * 12) div 18) :: u8) = (uint x * 12) div 18"
    by (simp add: uint_word_of_int take_bit_eq_mod)
  then have "unat (word_of_int ((uint x * 12) div 18) :: u8) = nat ((uint x * 12) div 18)"
    by (simp only: unat_eq_nat_uint)
  also have "\<dots> = (unat x * 12) div 18"
    by (simp add: nat_div_distrib nat_mult_distrib)
  finally show ?thesis by simp
qed

lemma read_robot_packet_2014_long:
  assumes "1024 \<le> length d"
  shows "fst (read_robot_packet_2014 cfg (Some d)) = 1"
    and "robot_voltage (snd (read_robot_packet_2014 cfg (Some d))) =
           real ((unat (d ! 1) * 12) div 18) + real ((unat (d ! 2) * 12) div 18) / 255"
proof -
  show "fst (read_robot_packet_2014 cfg (Some d)) = 1"
    using assms by (simp add: read_robot_packet_2014_def Let_def sdslen_def)
  have "robot_voltage (snd (read_robot_packet_2014 cfg (Some d))) =
      real (unat (word_of_int ((uint (d ! 1) * 12) div 0x12) :: u8)) +
      real (unat (word_of_int ((uint (d ! 2) * 12) div 0x12) :: u8)) / 255"
    using assms
    by (simp add: read_robot_packet_2014_def Let_def sdslen_def sds_get_def
        CFG_SetRobotVoltage_def CFG_SetEmergencyStopped_def CFG_SetRobotCode_def)
  then show "robot_voltage (snd (read_robot_packet_2014 cfg (Some d))) =
      real ((unat (d ! 1) * 12) div 18) + real ((unat (d ! 2) * 12) div 18) / 255"
    by (simp only: rule_of_three)
qed

text \<open>
  C6, counterexample: C6 says that the voltage bytes \<open>0x12\<close> and \<open>0x14\<close> decode to
  upper = 12 and lower = 20. The quotient \<open>(0x14 * 12) / 0x12\<close> is 240 / 18 = 13 in
  integer division, so the parser reports 12 + 13/255.
\<close>

theorem read_robot_packet_2014_sample_counterexample:
  "robot_voltage (snd (read_robot_packet_2014 idle_config (Some voltage_reply_sample))) =
     12 + 13 / 255"
  by (simp add: read_robot_packet_2014_long voltage_reply_sample_def)

text \<open>
  C6, amended: on a datagram of at least 1024 bytes the 2014 robot parser reports the
  voltage upper + lower / 255, where upper is \<open>(data [1] * 12) / 0x12\<close> and lower is
  \<open>(data [2] * 12) / 0x12\<close>, the bytes read as unsigned 8-bit values, the product and the
  integer quotient taken without wrap-around (the quotient fits 8 bits). For
  \<open>data [1] = 0x12\<close> and \<open>data [2] = 0x14\<close> that is upper = 12 and lower = 13: 12 + 13/255,
  about 12.051 V.
\<close>

theorem read_robot_packet_2014_voltage:
  "(1024 \<le> length d \<longrightarrow>
      fst (read_robot_packet_2014 cfg (Some d)) = 1 \<and>
      robot_voltage (snd (read_robot_packet_2014 cfg (Some d))) =
        real ((unat (d ! 1) * 12) div 0x12) + real ((unat (d ! 2) * 12) div 0x12) / 255) \<and>
   (1024 \<le> length d \<and> d ! 1 = 0x12 \<and> d ! 2 = 0x14 \<longrightarrow>
      robot_voltage (snd (read_robot_packet_2014 cfg (Some d))) = 12 + 13 / 255 \<and>
      \<bar>robot_voltage (snd (read_robot_packet_2014 cfg (Some d))) - 12.051\<bar> < 0.0001)"
  by (simp add: read_robot_packet_2014_long)

text \<open>
  C6, witness: the sample datagram has 1024 bytes, \<open>0x12\<close> at index 1 and \<open>0x14\<close> at
  index 2, and is decoded to 12 + 13/255.
\<close>

theorem read_robot_packet_2014_voltage_witness:
  "1024 \<le> length voltage_reply_sample \<and>
   voltage_reply_sample ! 1 = 0x12 \<and> voltage_reply_sample ! 2 = 0x14 \<and>
   fst (read_robot_packet_2014 idle_config (Some voltage_reply_sample)) = 1 \<and>
   robot_voltage (snd (read_robot_packet_2014 idle_config (Some voltage_reply_sample))) =
     12 + 13 / 255 \<and>
   \<bar>robot_voltage (snd (read_robot_packet_2014 idle_config (Some voltage_reply_sample)))
      - 12.051\<bar> < 0.0001"
proof -
  have h: "1024 \<le> length voltage_reply_sample \<and>
    voltage_reply_sample ! 1 = 0x12 \<and> voltage_reply_sample ! 2 = 0x14"
    by (simp add: voltage_reply_sample_def)
  from h read_robot_packet_2014_voltage [of voltage_reply_sample idle_config]
  show ?thesis by blast
qed

subsection \<open>The 2015 voltage bytes and the FMS packet\<close>

lemma c_double_to_int_fraction:
  "c_double_to_int (v - real_of_int (c_double_to_int v)) = 0"
proof (cases "0 \<le> v")
  case True
  then have "v - real_of_int (c_double_to_int v) = frac v"
    by (simp add: c_double_to_int_def frac_def)
  moreover have "0 \<le> frac v" and "frac v < 1"
    by (simp_all add: frac_lt_1)
  ultimately show ?thesis
    by (simp add: c_double_to_int_def)
next
  case False
  define x where "x = v - real_of_int \<lceil>v\<rceil>"
  have "x \<le> 0" and "- 1 < x"
    unfolding x_def by linarith+
  then have "\<lceil>x\<rceil> = 0"
    by (simp add: ceiling_eq_iff)
  moreover have "\<lfloor>x\<rfloor> = 0" if "0 \<le> x"
    using that \<open>x \<le> 0\<close> by simp
  ultimately have "c_double_to_int x = 0"
    by (simp add: c_double_to_int_def)
  with False show ?thesis
    by (simp add: c_double_to_int_def x_def)
qed

lemma encode_voltage_lower: "snd (encode_voltage v) = 0"
  by (simp add: encode_voltage_def Let_def c_double_to_int_fraction)

lemma encode_voltage_upper:
  "0 \<le> v \<Longrightarrow> v < 256 \<Longrightarrow> uint (fst (encode_voltage v)) = \<lfloor>v\<rfloor>"
proof -
  assume "0 \<le> v" and "v < 256"
  then have "0 \<le> \<lfloor>v\<rfloor>" and "\<lfloor>v\<rfloor> < 256"
    by (simp_all add: floor_less_iff)
  then have "uint (word_of_int \<lfloor>v\<rfloor> :: u8) = \<lfloor>v\<rfloor>"
    by (simp add: uint_word_of_int take_bit_eq_mod)
  with \<open>0 \<le> v\<close> show ?thesis
    by (simp add: encode_voltage_def Let_def c_double_to_int_def)
qed

lemma fms_packet_2015_bytes:
  "fst (create_fms_packet_2015 cfg st) =
     [ucast (drop_bit 8 (sent_fms_packets st AND 0xff00)),
      ucast (sent_fms_packets st AND 0xff),
      0x00, fms_control_code cfg,
      ucast (drop_bit 8 (team_number cfg AND 0xff00)),
      ucast (team_number cfg AND 0xff),
      fst (encode_voltage (robot_voltage cfg)), snd (encode_voltage (robot_voltage cfg))]"
  by (simp add: create_fms_packet_2015_def Let_def sdsnewlen_def numeral_eq_Suc
      split: prod.splits)

lemma fms_packet_2015_state:
  "snd (create_fms_packet_2015 cfg st) = st \<lparr>sent_fms_packets := sent_fms_packets st + 1\<rparr>"
  by (simp add: create_fms_packet_2015_def Let_def split: prod.splits)

text \<open>
  C5, counterexample: C5 says that the FMS packet of the scenario is
  \<open>00 07 00 24 0E D2 0C 32\<close>. With robot communications the FMS control code holds both
  \<open>0x20\<close> and \<open>0x08\<close>, so byte 3 of the packet is \<open>0x2C\<close>, and the packet is not that of
  the claim.
\<close>

theorem fms_packet_2015_scenario_counterexample:
  "fst (create_fms_packet_2015 fms_scenario_config fms_scenario_state) ! 3 = 0x2C \<and>
   fst (create_fms_packet_2015 fms_scenario_config fms_scenario_state) \<noteq>
     [0x00, 0x07, 0x00, 0x24, 0x0E, 0xD2, 0x0C, 0x32]"
  by (simp add: fms_packet_2015_bytes fms_control_code_def fms_scenario_config_def)

text \<open>
  C5, amended: for a voltage \<open>0 \<le> v < 256\<close> the 2015 encoder's upper byte is
  \<open>floor v\<close>; the FMS packet for voltage 12.5, FMS counter 7, an enabled, teleoperated
  robot that is not emergency-stopped, with robot communications and without radio
  communications, team 3794, is 8 bytes long and its bytes 0 to 6 are
  \<open>00 07 00 2C 0E D2 0C\<close>.
\<close>

theorem fms_packet_2015_scenario:
  "(0 \<le> v \<and> v < 256 \<longrightarrow> uint (fst (encode_voltage v)) = \<lfloor>v\<rfloor>) \<and>
   (robot_voltage cfg = 12.5 \<and> sent_fms_packets st = 7 \<and> robot_enabled cfg \<and>
    control_mode cfg = DS_CONTROL_TELEOPERATED \<and> \<not> emergency_stopped cfg \<and>
    robot_communications cfg \<and> \<not> radio_communications cfg \<and> team_number cfg = 3794 \<longrightarrow>
    length (fst (create_fms_packet_2015 cfg st)) = 8 \<and>
    take 7 (fst (create_fms_packet_2015 cfg st)) = [0x00, 0x07, 0x00, 0x2C, 0x0E, 0xD2, 0x0C])"
proof (intro conjI impI)
  assume "0 \<le> v \<and> v < 256"
  then show "uint (fst (encode_voltage v)) = \<lfloor>v\<rfloor>"
    by (simp add: encode_voltage_upper)
next
  assume h: "robot_voltage cfg = 12.5 \<and> sent_fms_packets st = 7 \<and> robot_enabled cfg \<and>
    control_mode cfg = DS_CONTROL_TELEOPERATED \<and> \<not> emergency_stopped cfg \<and>
    robot_communications cfg \<and> \<not> radio_communications cfg \<and> team_number cfg = 3794"
  show "length (fst (create_fms_packet_2015 cfg st)) = 8"
    by (simp add: fms_packet_2015_bytes)
  have "fst (encode_voltage 12.5) = 0x0C"
    by (simp add: encode_voltage_def Let_def c_double_to_int_def)
  moreover from h have "robot_voltage cfg = 12.5"
    by (rule conjunct1)
  ultimately have "fst (encode_voltage (robot_voltage cfg)) = 0x0C"
    by (simp only:)
  with h show "take 7 (fst (create_fms_packet_2015 cfg st)) =
      [0x00, 0x07, 0x00, 0x2C, 0x0E, 0xD2, 0x0C]"
    by (simp add: fms_packet_2015_bytes fms_control_code_def)
qed

text \<open>
  C5, witness: the registry and the state of the scenario meet the conditions, and the
  packet built from them has the seven bytes.
\<close>

theorem fms_packet_2015_scenario_witness:
  "(0 :: real) \<le> 12.5 \<and> (12.5 :: real) < 256 \<and>
   robot_voltage fms_scenario_config = 12.5 \<and> sent_fms_packets fms_scenario_state = 7 \<and>
   robot_enabled fms_scenario_config \<and>
   control_mode fms_scenario_config = DS_CONTROL_TELEOPERATED \<and>
   \<not> emergency_stopped fms_scenario_config \<and> robot_communications fms_scenario_config \<and>
   \<not> radio_communications fms_scenario_config \<and> team_number fms_scenario_config = 3794 \<and>
   uint (fst (encode_voltage 12.5)) = \<lfloor>12.5 :: real\<rfloor> \<and>
   length (fst (create_fms_packet_2015 fms_scenario_config fms_scenario_state)) = 8 \<and>
   take 7 (fst (create_fms_packet_2015 fms_scenario_config fms_scenario_state)) =
     [0x00, 0x07, 0x00, 0x2C, 0x0E, 0xD2, 0x0C]"
proof -
  have h: "(0 :: real) \<le> 12.5 \<and> (12.5 :: real) < 256 \<and>
    robot_voltage fms_scenario_config = 12.5 \<and> sent_fms_packets fms_scenario_state = 7 \<and>
    robot_enabled fms_scenario_config \<and>
    control_mode fms_scenario_config = DS_CONTROL_TELEOPERATED \<and>
    \<not> emergency_stopped fms_scenario_config \<and> robot_communications fms_scenario_config \<and>
    \<not> radio_communications fms_scenario_config \<and> team_number fms_scenario_config = 3794"
    by (simp add: fms_scenario_config_def fms_scenario_state_def)
  from h fms_packet_2015_scenario [of "12.5" fms_scenario_config fms_scenario_state]
  show ?thesis by blast
qed

text \<open>
  C8: for a whole number of volts \<open>v\<close> between 0 and 255, decoding the two bytes that
  the 2015 encoder produces gives \<open>v\<close> to within 1/255 V.
\<close>

theorem voltage_2015_whole_volts:
  "0 \<le> v \<Longrightarrow> v \<le> 255 \<Longrightarrow> frac v = 0 \<Longrightarrow>
   \<bar>decode_voltage (fst (encode_voltage v)) (snd (encode_voltage v)) - v\<bar> \<le> 1 / 255"
proof -
  assume "0 \<le> v" and "v \<le> 255" and "frac v = 0"
  then have "uint (fst (encode_voltage v)) = \<lfloor>v\<rfloor>"
    by (simp add: encode_voltage_upper)
  moreover have "real_of_int \<lfloor>v\<rfloor> = v"
    using \<open>frac v = 0\<close> by (simp add: frac_def)
  ultimately have "real (unat (fst (encode_voltage v))) = v"
    using \<open>0 \<le> v\<close> by (simp add: unat_eq_nat_uint)
  then show ?thesis
    by (simp add: decode_voltage_def encode_voltage_lower)
qed

text \<open>C8, witness: 12 V is a whole number of volts in range and is decoded to within 1/255 V.\<close>

theorem voltage_2015_whole_volts_witness:
  "(0 :: real) \<le> 12 \<and> (12 :: real) \<le> 255 \<and> frac (12 :: real) = 0 \<and>
   \<bar>decode_voltage (fst (encode_voltage 12)) (snd (encode_voltage 12)) - 12\<bar> \<le> 1 / 255"
  using voltage_2015_whole_volts [of 12] by simp

subsection \<open>Send counters\<close>

lemma low_byte_mask: "(0xff :: u32) = mask 8"
  by (simp add: mask_eq_exp_minus_1)

lemma high_byte_mask: "(0xff00 :: u32) = push_bit 8 (mask 8)"
  by (simp add: mask_eq_exp_minus_1 push_bit_eq_mult)

lemma counter_bytes:
  "word_cat (ucast (drop_bit 8 (c AND 0xff00)) :: u8) (ucast (c AND 0xff) :: u8) =
     (ucast c :: u16)" for c :: u32
  unfolding low_byte_mask high_byte_mask
  by (rule bit_word_eqI) (auto simp add: bit_simps)

lemma ucast_succ: "(ucast (c + 1) :: u16) = ucast c + 1" for c :: u32
proof -
  have "(ucast (c + 1) :: u16) = word_of_nat (unat (c + 1))"
    by simp
  also have "\<dots> = word_of_nat (unat c + 1)"
    by (simp only: unat_word_ariths word_of_nat_eq_iff take_bit_eq_mod)
      (simp add: mod_mod_cancel)
  also have "\<dots> = ucast c + 1"
    by simp
  finally show ?thesis .
qed

lemma robot_packet_2014_counter:
  "packet_counter (fst (create_robot_packet_2014 env cfg st)) =
     ucast (sent_robot_packets_2014 st)"
proof -
  let ?p = "fst (create_robot_packet_2014 env cfg st)"
  have "?p ! 0 = take 8 ?p ! 0" and "?p ! 1 = take 8 ?p ! 1"
    by simp_all
  then have "?p ! 0 = ucast (drop_bit 8 (sent_robot_packets_2014 st AND 0xff00))"
    and "?p ! 1 = ucast (sent_robot_packets_2014 st AND 0xff)"
    unfolding robot_packet_2014_header by simp_all
  then show ?thesis
    unfolding packet_counter_def by (simp only: counter_bytes)
qed

lemma robot_packet_2015_header:
  "take 6 (fst (create_robot_packet_2015 env cfg st)) =
     [ucast (drop_bit 8 (sent_robot_packets_2015 st AND 0xff00)),
      ucast (sent_robot_packets_2015 st AND 0xff),
      0x01, get_control_code_2015 cfg, get_request_code cfg st, get_station_code cfg]"
  by (simp add: create_robot_packet_2015_def Let_def sdsnewlen_def sdscatsds_def
      numeral_eq_Suc)

lemma robot_packet_2015_state:
  "snd (create_robot_packet_2015 env cfg st) =
     st \<lparr>sent_robot_packets_2015 := sent_robot_packets_2015 st + 1\<rparr>"
  by (simp add: create_robot_packet_2015_def Let_def)

lemma robot_packet_2015_counter:
  "packet_counter (fst (create_robot_packet_2015 env cfg st)) =
     ucast (sent_robot_packets_2015 st)"
proof -
  let ?p = "fst (create_robot_packet_2015 env cfg st)"
  have "?p ! 0 = take 6 ?p ! 0" and "?p ! 1 = take 6 ?p ! 1"
    by simp_all
  then have "?p ! 0 = ucast (drop_bit 8 (sent_robot_packets_2015 st AND 0xff00))"
    and "?p ! 1 = ucast (sent_robot_packets_2015 st AND 0xff)"
    unfolding robot_packet_2015_header by simp_all
  then show ?thesis
    unfolding packet_counter_def by (simp only: counter_bytes)
qed

lemma robot_packet_2015_request:
  "fst (create_robot_packet_2015 env cfg st) ! 4 = get_request_code cfg st"
proof -
  let ?p = "fst (create_robot_packet_2015 env cfg st)"
  have "?p ! 4 = take 6 ?p ! 4"
    by simp
  then show ?thesis
    unfolding robot_packet_2015_header by simp
qed

lemma fms_packet_2015_counter:
  "packet_counter (fst (create_fms_packet_2015 cfg st)) = ucast (sent_fms_packets st)"
proof -
  let ?p = "fst (create_fms_packet_2015 cfg st)"
  have "?p ! 0 = ucast (drop_bit 8 (sent_fms_packets st AND 0xff00))"
    and "?p ! 1 = ucast (sent_fms_packets st AND 0xff)"
    unfolding fms_packet_2015_bytes by simp_all
  then show ?thesis
    unfolding packet_counter_def by (simp only: counter_bytes)
qed

lemmas call_simps =
  robot_packet_2014_state robot_packet_2015_state fms_packet_2015_state
  read_robot_packet_2015_def reset_fms_2014_def reset_radio_2014_def reset_robot_2014_def
  reboot_robot_2014_def restart_robot_code_2014_def reset_fms_2015_def reset_radio_2015_def
  reset_robot_2015_def reboot_robot_2015_def restart_robot_code_2015_def Let_def

lemma call_2014_counter:
  "c \<noteq> Create_Robot_Packet \<Longrightarrow>
   sent_robot_packets_2014 (snd (snd (call_2014 env c (cfg, st)))) = sent_robot_packets_2014 st"
  by (cases c) (simp_all add: call_simps split_beta)

lemma call_2015_robot_counter:
  "c \<noteq> Create_Robot_Packet \<Longrightarrow>
   sent_robot_packets_2015 (snd (snd (call_2015 env c (cfg, st)))) = sent_robot_packets_2015 st"
  by (cases c) (simp_all add: call_simps split_beta split: option.splits)

lemma call_2015_fms_counter:
  "c \<noteq> Create_FMS_Packet \<Longrightarrow>
   sent_fms_packets (snd (snd (call_2015 env c (cfg, st)))) = sent_fms_packets st"
  by (cases c) (simp_all add: call_simps split_beta split: option.splits)

lemma run_2014_counter:
  "Create_Robot_Packet \<notin> fst ` set cs \<Longrightarrow>
   sent_robot_packets_2014 (run_2014 env cs st) = sent_robot_packets_2014 st"
  by (induction cs arbitrary: st) (auto simp add: call_2014_counter)

lemma run_2015_robot_counter:
  "Create_Robot_Packet \<notin> fst ` set cs \<Longrightarrow>
   sent_robot_packets_2015 (run_2015 env cs st) = sent_robot_packets_2015 st"
  by (induction cs arbitrary: st) (auto simp add: call_2015_robot_counter)

lemma run_2015_fms_counter:
  "Create_FMS_Packet \<notin> fst ` set cs \<Longrightarrow>
   sent_fms_packets (run_2015 env cs st) = sent_fms_packets st"
  by (induction cs arbitrary: st) (auto simp add: call_2015_fms_counter)

text \<open>
  C9: on each outbound stream that carries a send counter (the robot packets of both
  codecs and the FMS packets of the 2015 codec) bytes 0 and 1 of a packet hold the low 16
  bits of the counter at the time of framing, an emission adds exactly one to the
  counter, and no other call of the descriptor changes it, whenever it happens and
  whatever the registry holds: the next packet of the stream carries the previous
  packet's counter plus one modulo \<open>2 ^ 16\<close>.
\<close>

theorem send_counters_advance_by_one:
  "packet_counter (fst (create_robot_packet_2014 env cfg st14)) =
     ucast (sent_robot_packets_2014 st14) \<and>
   sent_robot_packets_2014 (snd (create_robot_packet_2014 env cfg st14)) =
     sent_robot_packets_2014 st14 + 1 \<and>
   (Create_Robot_Packet \<notin> fst ` set cs \<longrightarrow>
      packet_counter (fst (create_robot_packet_2014 env cfg'
        (run_2014 env cs (snd (create_robot_packet_2014 env cfg st14))))) =
      packet_counter (fst (create_robot_packet_2014 env cfg st14)) + 1) \<and>
   packet_counter (fst (create_robot_packet_2015 env cfg st15)) =
     ucast (sent_robot_packets_2015 st15) \<and>
   sent_robot_packets_2015 (snd (create_robot_packet_2015 env cfg st15)) =
     sent_robot_packets_2015 st15 + 1 \<and>
   (Create_Robot_Packet \<notin> fst ` set cs \<longrightarrow>
      packet_counter (fst (create_robot_packet_2015 env cfg'
        (run_2015 env cs (snd (create_robot_packet_2015 env cfg st15))))) =
      packet_counter (fst (create_robot_packet_2015 env cfg st15)) + 1) \<and>
   packet_counter (fst (create_fms_packet_2015 cfg st15)) = ucast (sent_fms_packets st15) \<and>
   sent_fms_packets (snd (create_fms_packet_2015 cfg st15)) = sent_fms_packets st15 + 1 \<and>
   (Create_FMS_Packet \<notin> fst ` set cs' \<longrightarrow>
      packet_counter (fst (create_fms_packet_2015 cfg'
        (run_2015 env cs' (snd (create_fms_packet_2015 cfg st15))))) =
      packet_counter (fst (create_fms_packet_2015 cfg st15)) + 1)"
  by (simp add: robot_packet_2014_counter robot_packet_2015_counter fms_packet_2015_counter
      run_2014_counter run_2015_robot_counter run_2015_fms_counter
      robot_packet_2014_state robot_packet_2015_state fms_packet_2015_state ucast_succ)


text \<open>
  C9, witness: between two robot packets the scheduler builds an FMS packet, reads a
  reply, resets the robot and requests a reboot, and between two FMS packets it builds
  two robot packets: in each stream the later packet carries the counter of the earlier
  one plus one.
\<close>

theorem send_counters_advance_by_one_witness:
  "Create_Robot_Packet \<notin> fst ` set steps_without_robot_packet \<and>
   Create_FMS_Packet \<notin> fst ` set steps_without_fms_packet \<and>
   packet_counter (fst (create_robot_packet_2014 quiet_env fms_scenario_config
     (run_2014 quiet_env steps_without_robot_packet
        (snd (create_robot_packet_2014 quiet_env idle_config initial_state_2014))))) =
   packet_counter (fst (create_robot_packet_2014 quiet_env idle_config initial_state_2014)) + 1 \<and>
   packet_counter (fst (create_robot_packet_2015 quiet_env fms_scenario_config
     (run_2015 quiet_env steps_without_robot_packet
        (snd (create_robot_packet_2015 quiet_env idle_config fms_scenario_state))))) =
   packet_counter (fst (create_robot_packet_2015 quiet_env idle_config fms_scenario_state)) + 1 \<and>
   packet_counter (fst (create_fms_packet_2015 fms_scenario_config
     (run_2015 quiet_env steps_without_fms_packet
        (snd (create_fms_packet_2015 idle_config fms_scenario_state))))) =
   packet_counter (fst (create_fms_packet_2015 idle_config fms_scenario_state)) + 1"
proof -
  have h: "Create_Robot_Packet \<notin> fst ` set steps_without_robot_packet \<and>
    Create_FMS_Packet \<notin> fst ` set steps_without_fms_packet"
    by (simp add: steps_without_robot_packet_def steps_without_fms_packet_def)
  from h send_counters_advance_by_one [of quiet_env idle_config initial_state_2014
      steps_without_robot_packet fms_scenario_config fms_scenario_state
      steps_without_fms_packet]
  show ?thesis by blast
qed

subsection \<open>One-shot commands\<close>

lemma get_request_code_cases:
  "get_request_code cfg st =
     (if robot_communications cfg
      then (if reboot_2015 st then 0x08 else if restart_code_2015 st then 0x04 else 0x80)
      else 0x00)"
  by (simp add: get_request_code_def Let_def)

lemma call_2014_reboot:
  "c \<noteq> Reset_Robot \<Longrightarrow> reboot_2014 st \<Longrightarrow> reboot_2014 (snd (snd (call_2014 env c (cfg, st))))"
  by (cases c) (simp_all add: call_simps split_beta)

lemma call_2014_restart_code:
  "c \<noteq> Reset_Robot \<Longrightarrow> restart_code_2014 st \<Longrightarrow>
   restart_code_2014 (snd (snd (call_2014 env c (cfg, st))))"
  by (cases c) (simp_all add: call_simps split_beta)

lemma call_2015_reboot:
  "c \<noteq> Reset_Robot \<Longrightarrow> reboot_2015 st \<Longrightarrow> reboot_2015 (snd (snd (call_2015 env c (cfg, st))))"
  by (cases c) (simp_all add: call_simps split_beta split: option.splits)

lemma call_2015_restart_code:
  "c \<noteq> Reset_Robot \<Longrightarrow> restart_code_2015 st \<Longrightarrow>
   restart_code_2015 (snd (snd (call_2015 env c (cfg, st))))"
  by (cases c) (simp_all add: call_simps split_beta split: option.splits)

lemma run_2014_reboot:
  "Reset_Robot \<notin> fst ` set cs \<Longrightarrow> reboot_2014 st \<Longrightarrow> reboot_2014 (run_2014 env cs st)"
  by (induction cs arbitrary: st) (auto simp add: call_2014_reboot)

lemma run_2014_restart_code:
  "Reset_Robot \<notin> fst ` set cs \<Longrightarrow> restart_code_2014 st \<Longrightarrow>
   restart_code_2014 (run_2014 env cs st)"
  by (induction cs arbitrary: st) (auto simp add: call_2014_restart_code)

lemma run_2015_reboot:
  "Reset_Robot \<notin> fst ` set cs \<Longrightarrow> reboot_2015 st \<Longrightarrow> reboot_2015 (run_2015 env cs st)"
  by (induction cs arbitrary: st) (auto simp add: call_2015_reboot)

lemma run_2015_restart_code:
  "Reset_Robot \<notin> fst ` set cs \<Longrightarrow> restart_code_2015 st \<Longrightarrow>
   restart_code_2015 (run_2015 env cs st)"
  by (induction cs arbitrary: st) (auto simp add: call_2015_restart_code)

lemma get_control_code_2014_not_reboot:
  "\<not> reboot_2014 st \<Longrightarrow> get_control_code_2014 cfg st \<noteq> 0x80"
proof -
  assume "\<not> reboot_2014 st"
  then have "get_control_code_2014 cfg st = 0x00 \<or> bit (get_control_code_2014 cfg st) 6"
    by (simp add: get_control_code_2014_cases bit_simps split: DS_ControlMode.splits)
  moreover have "\<not> bit (0x80 :: u8) 6"
    by simp
  ultimately show ?thesis
    by auto
qed

lemma robot_packet_2014_restart_code:
  "fst (create_robot_packet_2014 env cfg (st \<lparr>restart_code_2014 := b\<rparr>)) =
   fst (create_robot_packet_2014 env cfg st)"
  by (simp add: create_robot_packet_2014_def get_control_code_2014_def Let_def)

text \<open>
  C7, counterexample: C7 says that in both codecs a pending restart-code request shows in
  every robot packet built while it is pending. The 2014 robot packet built with the
  request pending is the packet built without it, and so is the 2015 robot packet when a
  reboot is pending too (robot communications up).
\<close>

theorem one_shot_visibility_counterexample:
  "fst (create_robot_packet_2014 quiet_env idle_config
     (restart_robot_code_2014 initial_state_2014)) =
   fst (create_robot_packet_2014 quiet_env idle_config initial_state_2014) \<and>
   fst (create_robot_packet_2015 quiet_env fms_scenario_config
     (restart_robot_code_2015 (reboot_robot_2015 initial_state_2015))) =
   fst (create_robot_packet_2015 quiet_env fms_scenario_config
     (reboot_robot_2015 initial_state_2015))"
  by (simp add: restart_robot_code_2014_def create_robot_packet_2014_def
      get_control_code_2014_def restart_robot_code_2015_def reboot_robot_2015_def
      create_robot_packet_2015_def get_request_code_def Let_def)

text \<open>
  C7, amended: a call of \<open>reboot_robot\<close> or \<open>restart_robot_code\<close> sets a flag that every
  later call of the descriptor other than \<open>reset_robot\<close> keeps, packet emission included,
  and that \<open>reset_robot\<close> clears. While the reboot flag is set, byte 2 of every 2014 robot
  packet is \<open>0x80\<close>, a value it never has otherwise, and byte 4 of every 2015 robot packet
  is \<open>0x08\<close> with robot communications and \<open>0x00\<close> without. While the 2015 restart-code
  flag is set, byte 4 of every 2015 robot packet is \<open>0x04\<close> with robot communications and
  no reboot pending, \<open>0x08\<close> with robot communications and a reboot pending, and \<open>0x00\<close>
  without robot communications; with neither flag set it is \<open>0x80\<close> or \<open>0x00\<close>.
\<close>

theorem one_shot_commands_pending:
  "(Reset_Robot \<notin> fst ` set cs \<longrightarrow>
      reboot_2014 (run_2014 env ((Reboot_Robot, cfg0) # cs) st14) \<and>
      fst (create_robot_packet_2014 env cfg
        (run_2014 env ((Reboot_Robot, cfg0) # cs) st14)) ! 2 = 0x80) \<and>
   (\<not> reboot_2014 st14 \<longrightarrow> fst (create_robot_packet_2014 env cfg st14) ! 2 \<noteq> 0x80) \<and>
   (Reset_Robot \<notin> fst ` set cs \<longrightarrow>
      restart_code_2014 (run_2014 env ((Restart_Robot_Code, cfg0) # cs) st14)) \<and>
   \<not> reboot_2014 (run_2014 env [(Reset_Robot, cfg0)] st14) \<and>
   \<not> restart_code_2014 (run_2014 env [(Reset_Robot, cfg0)] st14) \<and>
   (Reset_Robot \<notin> fst ` set cs \<longrightarrow>
      reboot_2015 (run_2015 env ((Reboot_Robot, cfg0) # cs) st15) \<and>
      fst (create_robot_packet_2015 env cfg
        (run_2015 env ((Reboot_Robot, cfg0) # cs) st15)) ! 4 =
        (if robot_communications cfg then 0x08 else 0x00)) \<and>
   (Reset_Robot \<notin> fst ` set cs \<longrightarrow>
      restart_code_2015 (run_2015 env ((Restart_Robot_Code, cfg0) # cs) st15) \<and>
      fst (create_robot_packet_2015 env cfg
        (run_2015 env ((Restart_Robot_Code, cfg0) # cs) st15)) ! 4 =
        (if robot_communications cfg
         then (if reboot_2015 (run_2015 env ((Restart_Robot_Code, cfg0) # cs) st15)
               then 0x08 else 0x04)
         else 0x00)) \<and>
   (\<not> reboot_2015 st15 \<and> \<not> restart_code_2015 st15 \<longrightarrow>
      fst (create_robot_packet_2015 env cfg st15) ! 4 =
        (if robot_communications cfg then 0x80 else 0x00)) \<and>
   \<not> reboot_2015 (run_2015 env [(Reset_Robot, cfg0)] st15) \<and>
   \<not> restart_code_2015 (run_2015 env [(Reset_Robot, cfg0)] st15)"
proof (intro conjI impI)
  assume cs: "Reset_Robot \<notin> fst ` set cs"
  show a: "reboot_2014 (run_2014 env ((Reboot_Robot, cfg0) # cs) st14)"
    using cs by (simp add: run_2014_reboot reboot_robot_2014_def)
  show "fst (create_robot_packet_2014 env cfg
      (run_2014 env ((Reboot_Robot, cfg0) # cs) st14)) ! 2 = 0x80"
    using a by (simp only: robot_packet_2014_control get_control_code_2014_cases if_True)
  show "restart_code_2014 (run_2014 env ((Restart_Robot_Code, cfg0) # cs) st14)"
    using cs by (simp add: run_2014_restart_code restart_robot_code_2014_def)
  show b: "reboot_2015 (run_2015 env ((Reboot_Robot, cfg0) # cs) st15)"
    using cs by (simp add: run_2015_reboot reboot_robot_2015_def)
  show "fst (create_robot_packet_2015 env cfg
      (run_2015 env ((Reboot_Robot, cfg0) # cs) st15)) ! 4 =
      (if robot_communications cfg then 0x08 else 0x00)"
    using b by (simp only: robot_packet_2015_request get_request_code_cases if_True)
  show c: "restart_code_2015 (run_2015 env ((Restart_Robot_Code, cfg0) # cs) st15)"
    using cs by (simp add: run_2015_restart_code restart_robot_code_2015_def)
  show "fst (create_robot_packet_2015 env cfg
      (run_2015 env ((Restart_Robot_Code, cfg0) # cs) st15)) ! 4 =
      (if robot_communications cfg
       then (if reboot_2015 (run_2015 env ((Restart_Robot_Code, cfg0) # cs) st15)
             then 0x08 else 0x04)
       else 0x00)"
    using c by (simp only: robot_packet_2015_request get_request_code_cases if_True)
next
  assume "\<not> reboot_2014 st14"
  then show "fst (create_robot_packet_2014 env cfg st14) ! 2 \<noteq> 0x80"
    by (simp only: robot_packet_2014_control get_control_code_2014_not_reboot
        not_False_eq_True)
next
  assume "\<not> reboot_2015 st15 \<and> \<not> restart_code_2015 st15"
  then show "fst (create_robot_packet_2015 env cfg st15) ! 4 =
      (if robot_communications cfg then 0x80 else 0x00)"
    by (simp add: robot_packet_2015_request get_request_code_cases)
next
  show "\<not> reboot_2014 (run_2014 env [(Reset_Robot, cfg0)] st14)"
    and "\<not> restart_code_2014 (run_2014 env [(Reset_Robot, cfg0)] st14)"
    by (simp_all add: reset_robot_2014_def)
  show "\<not> reboot_2015 (run_2015 env [(Reset_Robot, cfg0)] st15)"
    and "\<not> restart_code_2015 (run_2015 env [(Reset_Robot, cfg0)] st15)"
    by (simp_all add: reset_robot_2015_def)
qed

text \<open>
  C7, witness: the scheduler steps build packets and read a reply but do not reset the
  robot; after a reboot request and those steps the 2014 control byte is \<open>0x80\<close> and the 2015 request byte is \<open>0x08\<close>,
  and from the start-up states they are not.
\<close>

theorem one_shot_commands_pending_witness:
  "Reset_Robot \<notin> fst ` set steps_without_reset \<and>
   \<not> reboot_2014 initial_state_2014 \<and>
   \<not> reboot_2015 initial_state_2015 \<and> \<not> restart_code_2015 initial_state_2015 \<and>
   fst (create_robot_packet_2014 quiet_env fms_scenario_config
     (run_2014 quiet_env ((Reboot_Robot, idle_config) # steps_without_reset)
        initial_state_2014)) ! 2 = 0x80 \<and>
   fst (create_robot_packet_2014 quiet_env fms_scenario_config initial_state_2014) ! 2 \<noteq> 0x80 \<and>
   fst (create_robot_packet_2015 quiet_env fms_scenario_config
     (run_2015 quiet_env ((Reboot_Robot, idle_config) # steps_without_reset)
        initial_state_2015)) ! 4 = 0x08 \<and>
   fst (create_robot_packet_2015 quiet_env fms_scenario_config initial_state_2015) ! 4 = 0x80"
proof -
  have h: "Reset_Robot \<notin> fst ` set steps_without_reset \<and> \<not> reboot_2014 initial_state_2014 \<and>
    \<not> reboot_2015 initial_state_2015 \<and> \<not> restart_code_2015 initial_state_2015"
    by (simp add: steps_without_reset_def initial_state_2014_def initial_state_2015_def)
  have r: "robot_communications fms_scenario_config"
    by (simp add: fms_scenario_config_def)
  from h r one_shot_commands_pending [of steps_without_reset quiet_env idle_config
      initial_state_2014 fms_scenario_config initial_state_2015]
  show ?thesis by (simp del: run_2014.simps run_2015.simps)
qed

subsection \<open>The restart-code flag of the 2014 codec\<close>

text \<open>
  C10: in the 2014 codec \<open>restart_robot_code\<close> sets the restart-code flag, the FMS, radio
  and robot packets are the same bytes whether the flag is set or not, every call of the
  descriptor other than \<open>reset_robot\<close> keeps a set flag, and \<open>reset_robot\<close> clears it.
\<close>

theorem restart_code_2014_never_read:
  "restart_code_2014 (snd (snd (call_2014 env Restart_Robot_Code (cfg, st)))) \<and>
   (c \<in> {Create_FMS_Packet, Create_Radio_Packet, Create_Robot_Packet} \<longrightarrow>
      fst (call_2014 env c (cfg, st \<lparr>restart_code_2014 := True\<rparr>)) =
      fst (call_2014 env c (cfg, st \<lparr>restart_code_2014 := False\<rparr>))) \<and>
   (c \<noteq> Reset_Robot \<and> restart_code_2014 st \<longrightarrow>
      restart_code_2014 (snd (snd (call_2014 env c (cfg, st))))) \<and>
   \<not> restart_code_2014 (snd (snd (call_2014 env Reset_Robot (cfg, st))))"
proof (intro conjI impI)
  show "restart_code_2014 (snd (snd (call_2014 env Restart_Robot_Code (cfg, st))))"
    by (simp add: restart_robot_code_2014_def)
  show "\<not> restart_code_2014 (snd (snd (call_2014 env Reset_Robot (cfg, st))))"
    by (simp add: reset_robot_2014_def)
next
  assume "c \<in> {Create_FMS_Packet, Create_Radio_Packet, Create_Robot_Packet}"
  then show "fst (call_2014 env c (cfg, st \<lparr>restart_code_2014 := True\<rparr>)) =
      fst (call_2014 env c (cfg, st \<lparr>restart_code_2014 := False\<rparr>))"
    by (auto simp add: split_beta robot_packet_2014_restart_code)
next
  assume "c \<noteq> Reset_Robot \<and> restart_code_2014 st"
  then show "restart_code_2014 (snd (snd (call_2014 env c (cfg, st))))"
    by (simp add: call_2014_restart_code)
qed

text \<open>
  C10, witness: building a robot packet is one of the three packet builders and is not
  \<open>reset_robot\<close>; with the flag set it returns the same packet and keeps the flag.
\<close>

theorem restart_code_2014_never_read_witness:
  "Create_Robot_Packet \<in> {Create_FMS_Packet, Create_Radio_Packet, Create_Robot_Packet} \<and>
   Create_Robot_Packet \<noteq> Reset_Robot \<and>
   restart_code_2014 (restart_robot_code_2014 initial_state_2014) \<and>
   fst (call_2014 quiet_env Create_Robot_Packet
     (idle_config, restart_robot_code_2014 initial_state_2014 \<lparr>restart_code_2014 := True\<rparr>)) =
   fst (call_2014 quiet_env Create_Robot_Packet
     (idle_config, restart_robot_code_2014 initial_state_2014 \<lparr>restart_code_2014 := False\<rparr>)) \<and>
   restart_code_2014 (snd (snd (call_2014 quiet_env Create_Robot_Packet
     (idle_config, restart_robot_code_2014 initial_state_2014))))"
proof -
  have h: "Create_Robot_Packet \<in> {Create_FMS_Packet, Create_Radio_Packet, Create_Robot_Packet} \<and>
    Create_Robot_Packet \<noteq> Reset_Robot \<and>
    restart_code_2014 (restart_robot_code_2014 initial_state_2014)"
    by (simp add: restart_robot_code_2014_def)
  from h restart_code_2014_never_read [of quiet_env idle_config
      "restart_robot_code_2014 initial_state_2014" Create_Robot_Packet]
  show ?thesis by blast
qed

end
